theory Spec2Isabelle
  imports Main "HOL-Library.Sublist"
begin

section \<open>Python string operations\<close>

text \<open>
  A Python \<open>str\<close> is a sequence of code points. The texts the application receives
  are modelled as Isabelle \<open>string\<close>s, whose characters are the code points below 256
  (Latin-1). On such a text \<open>str.strip\<close> removes the characters for which
  \<open>str.isspace\<close> holds (among them U+0085 and U+00A0), and \<open>str.lower\<close> maps
  character to character. \<open>str.upper\<close> and \<open>str.capitalize\<close> can leave Latin-1
  (the upper case of U+00B5 is U+039C, that of U+00FF is U+0178) and change the length
  (the upper case of U+00DF is "SS", its title case "Ss"), so their results are lists of
  code points; \<open>points s\<close> is the text \<open>s\<close> as such a list. \<open>s.startswith(p)\<close> is
  \<open>startswith s p\<close>, \<open>s.endswith(p)\<close> is \<open>endswith s p\<close> and \<open>p in s\<close> is
  \<open>contains s p\<close>.
\<close>

type_synonym code_points = "nat list"

definition points :: "string \<Rightarrow> code_points" where
  "points s = map of_char s"

fun startswith :: "'a list \<Rightarrow> 'a list \<Rightarrow> bool" where
  "startswith s [] = True"
| "startswith [] (p # ps) = False"
| "startswith (c # cs) (p # ps) = (c = p \<and> startswith cs ps)"

definition endswith :: "string \<Rightarrow> string \<Rightarrow> bool" where
  "endswith s p = startswith (rev s) (rev p)"

fun contains :: "string \<Rightarrow> string \<Rightarrow> bool" where
  "contains [] p = (p = [])"
| "contains (c # cs) p = (startswith (c # cs) p \<or> contains cs p)"

definition is_space :: "char \<Rightarrow> bool" where
  "is_space c =
     (let n = (of_char c :: nat)
      in (9 \<le> n \<and> n \<le> 13) \<or> (28 \<le> n \<and> n \<le> 32) \<or> n = 133 \<or> n = 160)"

definition to_lower :: "char \<Rightarrow> char" where
  "to_lower c =
     (let n = (of_char c :: nat)
      in if (65 \<le> n \<and> n \<le> 90) \<or> (192 \<le> n \<and> n \<le> 222 \<and> n \<noteq> 215)
         then char_of (n + 32) else c)"

definition upper_char :: "char \<Rightarrow> code_points" where
  "upper_char c =
     (let n = (of_char c :: nat)
      in if (97 \<le> n \<and> n \<le> 122) \<or> (224 \<le> n \<and> n \<le> 254 \<and> n \<noteq> 247) then [n - 32]
         else if n = 181 then [924]
         else if n = 223 then [83, 83]
         else if n = 255 then [376]
         else [n])"

definition title_char :: "char \<Rightarrow> code_points" where
  "title_char c = (if of_char c = (223 :: nat) then [83, 115] else upper_char c)"

definition strip :: "string \<Rightarrow> string" where
  "strip s = rev (dropWhile is_space (rev (dropWhile is_space s)))"

definition upper :: "string \<Rightarrow> code_points" where
  "upper s = concat (map upper_char s)"

definition lower :: "string \<Rightarrow> string" where
  "lower s = map to_lower s"

definition capitalize :: "string \<Rightarrow> code_points" where
  "capitalize s = (case s of [] \<Rightarrow> [] | c # cs \<Rightarrow> title_char c @ points (lower cs))"

definition replace_char :: "char \<Rightarrow> string \<Rightarrow> string \<Rightarrow> string" where
  "replace_char old new s = concat (map (\<lambda>c. if c = old then new else [c]) s)"

fun join :: "string \<Rightarrow> string list \<Rightarrow> string" where
  "join sep [] = []"
| "join sep [x] = x"
| "join sep (x # y # ys) = x @ sep @ join sep (y # ys)"

definition quote :: string where
  "quote = [CHR 0x27]"

definition newline :: string where
  "newline = [CHR 0x0A]"

section \<open>The database collaborator\<close>

text \<open>
  The \<open>SQLDatabase\<close> object is outside the repository. It is modelled by what its two
  methods answer (\<open>Inl msg\<close>: the method raises an exception \<open>e\<close> with \<open>str(e) = msg\<close>) and
  by the log of the calls it has received, so that a claim that the database is not
  called is a claim about the log.
\<close>

datatype db_call = GetTableInfo | Run string

record database =
  table_info :: "string + string"
  run_result :: "string \<Rightarrow> string + string"
  calls :: "db_call list"

definition db_get_table_info :: "database \<Rightarrow> (string + string) \<times> database" where
  "db_get_table_info d = (table_info d, d\<lparr>calls := calls d @ [GetTableInfo]\<rparr>)"

definition db_run :: "string \<Rightarrow> database \<Rightarrow> (string + string) \<times> database" where
  "db_run q d = (run_result d q, d\<lparr>calls := calls d @ [Run q]\<rparr>)"

section \<open>Helper functions of the application\<close>

text \<open>
  \<open>db\<close> is \<open>None\<close> when \<open>get_database_connection\<close> failed. \<open>get_schema\<close> and
  \<open>run_select_query\<close> return their text together with the database after the call.
\<close>

definition get_schema :: "database option \<Rightarrow> string \<times> database option" where
  "get_schema db =
     (case db of
        Some d \<Rightarrow>
          (case db_get_table_info d of
             (Inr info, d') \<Rightarrow> (info, Some d')
           | (Inl e, d') \<Rightarrow> (''Error getting schema: '' @ e, Some d'))
      | None \<Rightarrow> (''Error: Database connection not available.'', None))"

definition skip_message :: string where
  "skip_message = ''Skipping execution: Query is not a valid SELECT statement or is unanswerable.''"

definition run_select_query :: "database option \<Rightarrow> string \<Rightarrow> string \<times> database option" where
  "run_select_query db sql_query =
     (case db of
        Some d \<Rightarrow>
          if sql_query = [] \<or>
             contains sql_query ''Cannot answer'' \<or>
             contains sql_query ''Error: SQL not generated'' \<or>
             \<not> startswith (upper (strip sql_query)) (points ''SELECT'')
          then (skip_message, Some d)
          else
            (case db_run (strip sql_query) d of
               (Inr rows, d') \<Rightarrow> (rows, Some d')
             | (Inl e, d') \<Rightarrow>
                 (''Error executing SELECT query: '' @ e @ newline @
                  ''Attempted Query: '' @ strip sql_query, Some d'))
      | None \<Rightarrow> (''Error: Database connection not available for query execution.'', None))"

definition run_simulated_dml_query :: "string \<Rightarrow> string \<Rightarrow> string" where
  "run_simulated_dml_query dml_sql action =
     (if dml_sql = [] \<or> contains dml_sql ''Error generating DML'' \<or>
         contains dml_sql ''Command too vague''
      then ''Error: Could not simulate '' @ action @ '' due to issues with the DML command.''
      else if \<not> (startswith (upper (strip dml_sql)) (points ''INSERT'') \<or>
                   startswith (upper (strip dml_sql)) (points ''DELETE'') \<or>
                   startswith (upper (strip dml_sql)) (points ''UPDATE''))
      then ''Error: The provided command for '' @ action @ '' does not appear to be valid DML.''
      else ''Successfully (simulated) '' @ action @
           '' data. No actual changes were made to the database in this demo.'')"

section \<open>Output parser of the DML generation chain\<close>

definition fence :: string where
  "fence = replicate 3 (CHR 0x60)"

definition SimpleStrParser_parse :: "string \<Rightarrow> string" where
  "SimpleStrParser_parse text =
     (let c0 = strip text;
          c1 = (if startswith c0 (fence @ ''sql'') then strip (drop 6 c0) else c0);
          c2 = (if endswith c1 fence then strip (take (length c1 - 3) c1) else c1);
          c3 = (if startswith c2 (fence @ ''json'') then strip (drop 7 c2) else c2);
          c4 = (if endswith c3 fence then strip (take (length c3 - 3) c3) else c3)
      in c4)"

section \<open>Session state\<close>

text \<open>
  The guidance object is the JSON object the guidance chain returns, over the keys the
  prompt defines. A key is absent, or holds JSON \<open>null\<close>, or holds a value of the type
  the prompt asks for; \<open>other_keys\<close> says whether the object has further keys (such
  as \<open>response_type\<close>), which the code never reads. A Python dict is truthy when it
  has a key.
\<close>

datatype 'a entry = Absent | Null | Present 'a

record guidance =
  target_table :: "string entry"
  suggested_fields :: "string list entry"
  guidance_text :: "string entry"
  fields_template_text :: "string entry"
  example_text :: "string entry"
  other_keys :: bool

definition dict_truthy :: "guidance \<Rightarrow> bool" where
  "dict_truthy g =
     (target_table g \<noteq> Absent \<or> suggested_fields g \<noteq> Absent \<or> guidance_text g \<noteq> Absent \<or>
      fields_template_text g \<noteq> Absent \<or> example_text g \<noteq> Absent \<or> other_keys g)"

definition guidance_truthy :: "guidance option \<Rightarrow> bool" where
  "guidance_truthy go = (case go of None \<Rightarrow> False | Some g \<Rightarrow> dict_truthy g)"

text \<open>
  The JSON object of the intent chain, read with \<open>get\<close> only, and the content dict of
  an assistant message: each key is absent (\<open>None\<close>) or holds a text. The
  \<open>ai_response\<close> of a message can hold the result of \<open>str.capitalize\<close>, so it is
  a list of code points.
\<close>

record intent =
  response_type :: "string option"
  generated_sql :: "string option"
  llm_ai_response :: "string option"

record response_content =
  ai_response :: "code_points option"
  generated_sql_display :: "string option"
  sql_query_result_display :: "string option"
  error :: "string option"

datatype content = Text string | Reply response_content

datatype role = User | Assistant

record message =
  role :: role
  content :: content

record dml_confirmation =
  action :: string
  sql :: string

record session_state =
  current_action :: "string option"
  dml_initial_description :: string
  dml_form_inputs :: "(string \<times> string) list"
  dml_text_details :: string
  dml_guidance_message :: "guidance option"
  dml_input_method :: "string option"
  pending_dml_confirmation :: "dml_confirmation option"
  messages :: "message list"

definition empty_content :: response_content where
  "empty_content =
     \<lparr>ai_response = None, generated_sql_display = None,
      sql_query_result_display = None, error = None\<rparr>"

definition assistant_says :: "code_points \<Rightarrow> message" where
  "assistant_says t = \<lparr>role = Assistant, content = Reply (empty_content\<lparr>ai_response := Some t\<rparr>)\<rparr>"

definition assistant_error :: "string \<Rightarrow> message" where
  "assistant_error t = \<lparr>role = Assistant, content = Reply (empty_content\<lparr>error := Some t\<rparr>)\<rparr>"

text \<open>The session after the initialisation block of the first script run.\<close>

definition initial_session :: session_state where
  "initial_session =
     \<lparr>current_action = None, dml_initial_description = [], dml_form_inputs = [],
      dml_text_details = [], dml_guidance_message = None, dml_input_method = None,
      pending_dml_confirmation = None,
      messages =
        [assistant_says (points ''Hello! Use the quick action buttons or ask a question below.'')]\<rparr>"

text \<open>
  A dict keeps insertion order; assigning to a key it has keeps the key's place.
\<close>

fun dict_set :: "(string \<times> string) list \<Rightarrow> string \<Rightarrow> string \<Rightarrow> (string \<times> string) list" where
  "dict_set [] k v = [(k, v)]"
| "dict_set ((k', v') # kvs) k v =
     (if k' = k then (k, v) # kvs else (k', v') # dict_set kvs k v)"

definition dict_get :: "(string \<times> string) list \<Rightarrow> string \<Rightarrow> string option" where
  "dict_get kvs k = map_of kvs k"

section \<open>Collaborators and user interface events\<close>

text \<open>
  The language model is outside the repository. Each chain is modelled by what it
  answers for its inputs in the current script run: \<open>Inl e\<close> when the call or its
  JSON parser raises \<open>e\<close>. The guidance chain answers with a JSON object or with JSON
  \<open>null\<close> (\<open>None\<close>). The DML generation chain ends in \<open>SimpleStrParser\<close>, which
  is modelled above, so its oracle gives the raw model text; its first argument is the
  upper-cased action verb. \<open>format_exc\<close> is the text of \<open>traceback.format_exc()\<close>.
\<close>

datatype exn = JSONDecodeError string | Exception string

record collaborators =
  initial_processing_chain :: "string \<Rightarrow> content \<Rightarrow> exn + intent"
  select_answer_chain :: "content \<Rightarrow> string \<Rightarrow> string \<Rightarrow> exn + string"
  dml_guidance_chain :: "string \<Rightarrow> string \<Rightarrow> string \<Rightarrow> string \<Rightarrow> exn + guidance option"
  dml_generation_llm :: "code_points \<Rightarrow> string \<Rightarrow> string \<Rightarrow> string \<Rightarrow> exn + string"
  db_summary_chain :: "string \<Rightarrow> exn + string"
  format_exc :: string

text \<open>
  One script run is started by at most one widget event. A button that is not rendered
  in the run, or is disabled, returns \<open>False\<close> whatever the event. \<open>text_area\<close> is
  what the text area rendered in this run returns, \<open>text_input\<close> what the form's
  text input of a field returns.
\<close>

datatype event =
    NoEvent
  | ClickAddData | ClickDeleteData | ClickSummarize
  | ClickGetGuidance | ClickCancel
  | ClickFillForm | ClickDescribeText | ClickCancelOperation
  | SubmitForm | ClickGenerateFromText | ClickGoBack
  | ClickProceed | ClickCancelConfirmation
  | ChatInput string

record ui =
  event :: event
  text_area :: string
  text_input :: "string \<Rightarrow> string"

text \<open>
  How a script run ends: \<open>st.rerun()\<close>, \<open>st.stop()\<close>, an exception the script does
  not catch, or the end of the script. The notices are the warning and error boxes of
  the DML stages.
\<close>

datatype outcome = Rerun | Stopped | Crashed | Finished

datatype notice = Warning string | Error string

section \<open>The script: quick actions and DML stages\<close>

definition quick_action :: "string \<Rightarrow> session_state \<Rightarrow> session_state" where
  "quick_action stage s =
     s\<lparr>current_action := Some stage, dml_initial_description := [], dml_form_inputs := [],
       dml_text_details := [], dml_guidance_message := None, dml_input_method := None\<rparr>"

definition action_verb_of :: "string \<Rightarrow> string" where
  "action_verb_of ca = (if contains ca ''add'' then ''Add'' else ''Delete'')"

text \<open>
  Each stage returns the session, the notices it shows and, when the run ends inside
  the stage, how it ends (\<open>None\<close>: the script goes on below the stage).
\<close>

type_synonym stage_result = "session_state \<times> notice list \<times> outcome option"

text \<open>Stage 1: the initial description.\<close>

definition initial_input_stage :: "ui \<Rightarrow> string \<Rightarrow> session_state \<Rightarrow> stage_result" where
  "initial_input_stage u ca s =
     (let action_verb = action_verb_of ca;
          s1 = s\<lparr>dml_initial_description := text_area u\<rparr>
      in if event u = ClickGetGuidance then
           (if strip (dml_initial_description s1) \<noteq> [] then
              (s1\<lparr>current_action :=
                    Some (''process_initial_dml_description_'' @ lower action_verb)\<rparr>,
               [], Some Rerun)
            else (s1, [Warning ''Please provide an initial description.''], None))
         else if event u = ClickCancel then (s1\<lparr>current_action := None\<rparr>, [], Some Rerun)
         else (s1, [], None))"

text \<open>
  Stage 2: the guidance and the choice of an input method.
  \<open>get_target_table\<close> is \<open>guidance.get("target_table", "Unknown")\<close>, a text or
  \<open>None\<close> (read from a \<open>null\<close>): the default stands for an absent key only, and
  \<open>None\<close> differs from "Unknown". \<open>fields_truthy\<close> is the truth value of
  \<open>guidance.get("suggested_fields")\<close>.
\<close>

definition get_target_table :: "guidance \<Rightarrow> string option" where
  "get_target_table g =
     (case target_table g of Absent \<Rightarrow> Some ''Unknown'' | Null \<Rightarrow> None | Present t \<Rightarrow> Some t)"

definition fields_truthy :: "guidance \<Rightarrow> bool" where
  "fields_truthy g = (case suggested_fields g of Present fs \<Rightarrow> fs \<noteq> [] | _ \<Rightarrow> False)"

definition form_disabled :: "guidance \<Rightarrow> bool" where
  "form_disabled g = (get_target_table g = Some ''Unknown'' \<or> \<not> fields_truthy g)"

definition input_method_stage :: "ui \<Rightarrow> string \<Rightarrow> session_state \<Rightarrow> stage_result" where
  "input_method_stage u ca s =
     (let action_verb = action_verb_of ca in
      case dml_guidance_message s of
        Some g \<Rightarrow>
          if dict_truthy g then
            (if event u = ClickFillForm \<and> \<not> form_disabled g then
               (s\<lparr>dml_input_method := Some ''form'',
                  current_action :=
                    Some (''awaiting_structured_dml_details_'' @ lower action_verb)\<rparr>,
                [], Some Rerun)
             else if event u = ClickDescribeText then
               (s\<lparr>dml_input_method := Some ''text'',
                  current_action :=
                    Some (''awaiting_structured_dml_details_'' @ lower action_verb)\<rparr>,
                [], Some Rerun)
             else if event u = ClickCancelOperation then
               (s\<lparr>current_action := None, dml_guidance_message := None\<rparr>, [], Some Rerun)
             else (s, [], None))
          else
            (s\<lparr>current_action := None\<rparr>,
             [Error ''Guidance message not found. Please start the DML action again.''], None)
      | None \<Rightarrow>
          (s\<lparr>current_action := None\<rparr>,
           [Error ''Guidance message not found. Please start the DML action again.''], None))"

text \<open>
  Stage 2b: the details, in a form or as text. \<open>get_suggested_fields\<close> is the list
  that \<open>guidance.get("suggested_fields", [])\<close> gives the form to iterate over; a
  \<open>null\<close> is falsy like the empty list, and the form is then not rendered. The form
  registers one text input per suggested field under a key made from the field's name;
  Streamlit raises on a key that the run has already used, which ends the run with the
  values of the earlier text inputs stored.
\<close>

definition get_suggested_fields :: "guidance \<Rightarrow> string list" where
  "get_suggested_fields g = (case suggested_fields g of Present fs \<Rightarrow> fs | _ \<Rightarrow> [])"

definition widget_key :: "string \<Rightarrow> string \<Rightarrow> string" where
  "widget_key action_verb field =
     ''form_input_'' @ action_verb @ ''_'' @ replace_char (CHR '' '') ''_'' field"

fun form_inputs_loop ::
  "ui \<Rightarrow> string \<Rightarrow> string list \<Rightarrow> string list \<Rightarrow> (string \<times> string) list \<Rightarrow>
   (string \<times> string) list \<times> bool" where
  "form_inputs_loop u action_verb seen [] inputs = (inputs, True)"
| "form_inputs_loop u action_verb seen (field # fs) inputs =
     (if widget_key action_verb field \<in> set seen then (inputs, False)
      else form_inputs_loop u action_verb (widget_key action_verb field # seen) fs
             (dict_set inputs field (text_input u field)))"

definition any_filled :: "(string \<times> string) list \<Rightarrow> string list \<Rightarrow> bool" where
  "any_filled inputs fs =
     list_ex (\<lambda>f. case dict_get inputs f of None \<Rightarrow> False | Some v \<Rightarrow> v \<noteq> []) fs"

definition go_back_button :: "ui \<Rightarrow> string \<Rightarrow> session_state \<Rightarrow> notice list \<Rightarrow> stage_result" where
  "go_back_button u action_verb s ns =
     (if event u = ClickGoBack then
        (s\<lparr>current_action := Some (''awaiting_dml_input_method_'' @ lower action_verb),
           dml_form_inputs := [], dml_text_details := []\<rparr>, ns, Some Rerun)
      else (s, ns, None))"

definition details_form :: "ui \<Rightarrow> string \<Rightarrow> guidance \<Rightarrow> session_state \<Rightarrow> stage_result" where
  "details_form u action_verb g s =
     (let fs = get_suggested_fields g in
      if fs = [] then
        go_back_button u action_verb s
          [Warning (''No specific fields were suggested by the AI. Please use the '' @
                    quote @ ''Describe in Text'' @ quote @
                    '' option or ensure your initial description was clear.'')]
      else
        (case form_inputs_loop u action_verb [] fs (dml_form_inputs s) of
           (inputs, False) \<Rightarrow> (s\<lparr>dml_form_inputs := inputs\<rparr>, [], Some Crashed)
         | (inputs, True) \<Rightarrow>
             (let s1 = s\<lparr>dml_form_inputs := inputs\<rparr> in
              if event u = SubmitForm then
                (if any_filled (dml_form_inputs s1) fs then
                   (s1\<lparr>current_action :=
                         Some (''process_structured_dml_'' @ lower action_verb)\<rparr>,
                    [], Some Rerun)
                 else
                   go_back_button u action_verb s1
                     [Warning ''Please fill in at least one field in the form.''])
              else go_back_button u action_verb s1 [])))"

definition details_text :: "ui \<Rightarrow> string \<Rightarrow> session_state \<Rightarrow> stage_result" where
  "details_text u action_verb s =
     (let s1 = s\<lparr>dml_text_details := text_area u\<rparr> in
      if event u = ClickGenerateFromText then
        (if strip (dml_text_details s1) \<noteq> [] then
           (s1\<lparr>current_action := Some (''process_structured_dml_'' @ lower action_verb)\<rparr>,
            [], Some Rerun)
         else
           go_back_button u action_verb s1
             [Warning ''Please provide the structured details in text.''])
      else go_back_button u action_verb s1 [])"

definition details_stage :: "ui \<Rightarrow> string \<Rightarrow> session_state \<Rightarrow> stage_result" where
  "details_stage u ca s =
     (let action_verb = action_verb_of ca in
      case dml_guidance_message s of
        None \<Rightarrow>
          (s, [Error ''Error: DML guidance is missing. Please restart the Add/Delete action.''],
           Some Stopped)
      | Some g \<Rightarrow>
          if \<not> dict_truthy g then
            (s, [Error ''Error: DML guidance is missing. Please restart the Add/Delete action.''],
             Some Stopped)
          else if dml_input_method s = Some ''form'' then details_form u action_verb g s
          else if dml_input_method s = Some ''text'' then details_text u action_verb s
          else
            go_back_button u action_verb s
              [Error ''Input method not selected. Please restart the Add/Delete action.''])"

text \<open>Stage 3: the confirmation of the generated statement.\<close>

definition confirmation_stage :: "ui \<Rightarrow> dml_confirmation \<Rightarrow> session_state \<Rightarrow> stage_result" where
  "confirmation_stage u p s =
     (let action_verb = action p; dml_sql = sql p in
      if event u = ClickProceed then
        (s\<lparr>messages := messages s @
                [assistant_says (points (run_simulated_dml_query dml_sql action_verb))],
           pending_dml_confirmation := None, current_action := None\<rparr>, [], Some Rerun)
      else if event u = ClickCancelConfirmation then
        (s\<lparr>messages := messages s @
                [assistant_says (capitalize action_verb @ points '' operation cancelled.'')],
           pending_dml_confirmation := None, current_action := None\<rparr>, [], Some Rerun)
      else (s, [], None))"

text \<open>The \<open>if\<close>/\<open>elif\<close> chain over the stages.\<close>

definition dml_stages :: "ui \<Rightarrow> session_state \<Rightarrow> stage_result" where
  "dml_stages u s =
     (if current_action s \<in> {Some ''add_data_initial_input'', Some ''delete_data_initial_input''}
      then initial_input_stage u (the (current_action s)) s
      else if current_action s \<in>
                {Some ''awaiting_dml_input_method_add'', Some ''awaiting_dml_input_method_delete''}
      then input_method_stage u (the (current_action s)) s
      else if current_action s \<in>
                {Some ''awaiting_structured_dml_details_add'',
                 Some ''awaiting_structured_dml_details_delete''}
      then details_stage u (the (current_action s)) s
      else
        (case pending_dml_confirmation s of
           Some p \<Rightarrow> confirmation_stage u p s
         | None \<Rightarrow> (s, [], None)))"

text \<open>The chat input below the history.\<close>

definition chat_input_disabled :: "session_state \<Rightarrow> bool" where
  "chat_input_disabled s =
     (case current_action s of
        None \<Rightarrow> False
      | Some ca \<Rightarrow> ca \<noteq> [] \<and> (contains ca ''dml'' \<or> pending_dml_confirmation s \<noteq> None))"

definition chat_input :: "ui \<Rightarrow> session_state \<Rightarrow> session_state \<times> outcome option" where
  "chat_input u s =
     (case event u of
        ChatInput user_input \<Rightarrow>
          if user_input \<noteq> [] \<and> \<not> chat_input_disabled s then
            (s\<lparr>messages := messages s @ [\<lparr>role = User, content = Text user_input\<rparr>],
               current_action := Some ''process_chat_input''\<rparr>, Some Rerun)
          else (s, None)
      | _ \<Rightarrow> (s, None))"

section \<open>The script: processing the current action\<close>

text \<open>The two \<open>except\<close> clauses around the handlers.\<close>

definition error_message :: "collaborators \<Rightarrow> exn \<Rightarrow> string" where
  "error_message co e =
     (case e of
        JSONDecodeError m \<Rightarrow>
          ''AI response format error (not valid JSON): '' @ m @
          ''. The LLM might have responded in plain text instead of JSON.''
      | Exception m \<Rightarrow> ''An unexpected error occurred: '' @ m @ newline @ format_exc co)"

definition on_exception :: "collaborators \<Rightarrow> exn \<Rightarrow> session_state \<Rightarrow> session_state" where
  "on_exception co e s =
     s\<lparr>messages := messages s @ [assistant_error (error_message co e)], current_action := None\<rparr>"

text \<open>
  The chat turn: the content of the assistant's message, or the exception raised on the
  way, and the database after the calls made.
\<close>

definition chat_turn ::
  "collaborators \<Rightarrow> database option \<Rightarrow> session_state \<Rightarrow> (exn + response_content) \<times> database option" where
  "chat_turn co db s =
     (if messages s = [] then (Inl (Exception ''list index out of range''), db)
      else
        let user_query = content (last (messages s));
            (schema, db1) = get_schema db
        in case initial_processing_chain co schema user_query of
             Inl e \<Rightarrow> (Inl e, db1)
           | Inr llm_response_json \<Rightarrow>
               if response_type llm_response_json = Some ''SELECT_QUERY'' then
                 (case generated_sql llm_response_json of
                    Some q \<Rightarrow>
                      if q \<noteq> [] \<and> \<not> contains q ''Cannot answer'' then
                        (let (sql_response_raw, db2) = run_select_query db1 q in
                         case select_answer_chain co user_query q sql_response_raw of
                           Inl e \<Rightarrow> (Inl e, db2)
                         | Inr nl_answer \<Rightarrow>
                             (Inr (empty_content
                                     \<lparr>generated_sql_display := Some q,
                                      sql_query_result_display := Some sql_response_raw,
                                      ai_response := Some (points nl_answer)\<rparr>), db2))
                      else
                        (Inr (empty_content\<lparr>generated_sql_display := Some q,
                                            ai_response := Some (points q)\<rparr>), db1)
                  | None \<Rightarrow> (Inr empty_content, db1))
               else if response_type llm_response_json = Some ''CLARIFICATION_NEEDED_FOR_SELECT'' \<or>
                       response_type llm_response_json = Some ''DML_INTENT_DETECTED'' \<or>
                       response_type llm_response_json = Some ''GENERAL_RESPONSE'' then
                 (Inr (empty_content
                        \<lparr>ai_response := map_option points (llm_ai_response llm_response_json)\<rparr>),
                  db1)
               else if response_type llm_response_json = Some ''DATABASE_OVERVIEW_REQUEST'' then
                 (let (schema2, db2) = get_schema db1 in
                  case db_summary_chain co schema2 of
                    Inl e \<Rightarrow> (Inl e, db2)
                  | Inr summary \<Rightarrow>
                      (Inr (empty_content
                              \<lparr>ai_response :=
                                 Some (points (''**Database Overview:**'' @ newline @ newline @ summary))\<rparr>),
                       db2))
               else (Inr (empty_content\<lparr>error := Some ''Unexpected AI response type.''\<rparr>), db1))"

type_synonym process_result = "session_state \<times> database option \<times> notice list \<times> outcome"

definition process_chat_input ::
  "collaborators \<Rightarrow> database option \<Rightarrow> session_state \<Rightarrow> process_result" where
  "process_chat_input co db s =
     (case chat_turn co db s of
        (Inl e, db') \<Rightarrow> (on_exception co e s, db', [], Rerun)
      | (Inr assistant_response_content, db') \<Rightarrow>
          (s\<lparr>messages := messages s @
                 [\<lparr>role = Assistant, content = Reply assistant_response_content\<rparr>],
             current_action := None\<rparr>, db', [], Rerun))"

definition action_description :: "string \<Rightarrow> string" where
  "action_description action_verb =
     (if action_verb = ''add'' then ''adding new data'' else ''deleting existing data'')"

definition process_initial_dml_description ::
  "collaborators \<Rightarrow> database option \<Rightarrow> string \<Rightarrow> session_state \<Rightarrow> process_result" where
  "process_initial_dml_description co db action_to_process s =
     (let action_verb = (if contains action_to_process ''add'' then ''add'' else ''delete'');
          action_desc = action_description action_verb;
          initial_desc = dml_initial_description s;
          (schema, db') = get_schema db
      in case dml_guidance_chain co action_verb action_desc initial_desc schema of
           Inl e \<Rightarrow> (on_exception co e s, db', [], Rerun)
         | Inr guidance_json \<Rightarrow>
             (s\<lparr>dml_guidance_message := guidance_json,
                current_action := Some (''awaiting_dml_input_method_'' @ action_verb)\<rparr>,
              db', [], Rerun))"

text \<open>
  The form's filled fields as \<open>field='value'\<close>, joined by a comma and a space, with
  a quote in a value doubled.
\<close>

definition structured_details :: "(string \<times> string) list \<Rightarrow> string" where
  "structured_details form_inputs =
     join '', ''
       (map (\<lambda>(k, v). k @ ''='' @ quote @ replace_char (CHR 0x27) (quote @ quote) v @ quote)
          (filter (\<lambda>(k, v). v \<noteq> []) form_inputs))"

text \<open>The DML generation chain: the model's text through \<open>SimpleStrParser\<close>.\<close>

definition dml_generation_chain ::
  "collaborators \<Rightarrow> code_points \<Rightarrow> string \<Rightarrow> string \<Rightarrow> string \<Rightarrow> exn + string" where
  "dml_generation_chain co action_type action_type_description user_structured_details schema =
     (case dml_generation_llm co action_type action_type_description user_structured_details schema of
        Inl e \<Rightarrow> Inl e
      | Inr text \<Rightarrow> Inr (SimpleStrParser_parse text))"

definition process_structured_dml ::
  "collaborators \<Rightarrow> database option \<Rightarrow> string \<Rightarrow> session_state \<Rightarrow> process_result" where
  "process_structured_dml co db action_to_process s =
     (let action_verb = (if contains action_to_process ''add'' then ''add'' else ''delete'');
          action_desc = action_description action_verb
      in if dml_input_method s \<noteq> Some ''form'' \<and> dml_input_method s \<noteq> Some ''text'' then
           (s, db, [Error ''DML Input method not determined.''], Stopped)
         else
           let user_structured_details_str =
                 (if dml_input_method s = Some ''form''
                  then structured_details (dml_form_inputs s)
                  else dml_text_details s);
               (schema, db') = get_schema db
           in case dml_generation_chain co (upper action_verb) action_desc
                     user_structured_details_str schema of
                Inl e \<Rightarrow> (on_exception co e s, db', [], Rerun)
              | Inr generated_dml_sql \<Rightarrow>
                  if startswith generated_dml_sql ''Error generating DML:'' then
                    (s\<lparr>messages := messages s @ [assistant_says (points generated_dml_sql)],
                       current_action := None\<rparr>, db', [], Rerun)
                  else
                    (s\<lparr>pending_dml_confirmation :=
                         Some \<lparr>action = action_verb, sql = generated_dml_sql\<rparr>\<rparr>,
                     db', [], Rerun))"

definition process_summarize_db ::
  "collaborators \<Rightarrow> database option \<Rightarrow> session_state \<Rightarrow> process_result" where
  "process_summarize_db co db s =
     (let (schema, db') = get_schema db in
      case db_summary_chain co schema of
        Inl e \<Rightarrow> (on_exception co e s, db', [], Rerun)
      | Inr summary \<Rightarrow>
          (s\<lparr>messages := messages s @
                 [assistant_says (points (''**Database Summary:**'' @ newline @ newline @ summary))],
             current_action := None\<rparr>, db', [], Rerun))"

definition process_actions ::
  "collaborators \<Rightarrow> database option \<Rightarrow> session_state \<Rightarrow> process_result" where
  "process_actions co db s =
     (case current_action s of
        None \<Rightarrow> (s, db, [], Finished)
      | Some action_to_process \<Rightarrow>
          if action_to_process = [] then (s, db, [], Finished)
          else if action_to_process = ''process_chat_input'' then process_chat_input co db s
          else if startswith action_to_process ''process_initial_dml_description_''
          then process_initial_dml_description co db action_to_process s
          else if startswith action_to_process ''process_structured_dml_''
          then process_structured_dml co db action_to_process s
          else if action_to_process = ''summarize_db'' then process_summarize_db co db s
          else (s, db, [], Finished))"

section \<open>One script run and sequences of runs\<close>

record run_result =
  session :: session_state
  db_after :: "database option"
  notices :: "notice list"
  outcome :: outcome

definition script_run ::
  "collaborators \<Rightarrow> database option \<Rightarrow> session_state \<Rightarrow> ui \<Rightarrow> run_result" where
  "script_run co db s u =
     (if event u = ClickAddData then
        \<lparr>session = quick_action ''add_data_initial_input'' s, db_after = db, notices = [],
         outcome = Rerun\<rparr>
      else if event u = ClickDeleteData then
        \<lparr>session = quick_action ''delete_data_initial_input'' s, db_after = db, notices = [],
         outcome = Rerun\<rparr>
      else if event u = ClickSummarize then
        \<lparr>session = s\<lparr>current_action := Some ''summarize_db''\<rparr>, db_after = db, notices = [],
         outcome = Rerun\<rparr>
      else
        (case dml_stages u s of
           (s1, ns, Some out) \<Rightarrow> \<lparr>session = s1, db_after = db, notices = ns, outcome = out\<rparr>
         | (s1, ns, None) \<Rightarrow>
             (case chat_input u s1 of
                (s2, Some out) \<Rightarrow> \<lparr>session = s2, db_after = db, notices = ns, outcome = out\<rparr>
              | (s2, None) \<Rightarrow>
                  (case process_actions co db s2 of
                     (s3, db', ns', out) \<Rightarrow>
                       \<lparr>session = s3, db_after = db', notices = ns @ ns', outcome = out\<rparr>))))"

text \<open>
  A sequence of script runs, each with the collaborators' answers and the widget event
  of the run: the session and the database after the last run, and how each run ended.
  A session is reachable when some sequence of runs leads to it from the initial one.
\<close>

fun runs ::
  "database option \<Rightarrow> session_state \<Rightarrow> (collaborators \<times> ui) list \<Rightarrow>
   session_state \<times> database option \<times> outcome list" where
  "runs db s [] = (s, db, [])"
| "runs db s ((co, u) # rest) =
     (let r = script_run co db s u;
          (s', db', outs) = runs (db_after r) (session r) rest
      in (s', db', outcome r # outs))"

definition reachable :: "database option \<Rightarrow> session_state \<Rightarrow> bool" where
  "reachable db0 s = (\<exists>trace. fst (runs db0 initial_session trace) = s)"

text \<open>The stage the script shows for a session: the order of the \<open>if\<close>/\<open>elif\<close> chain.\<close>

datatype stage = InitialInput | AwaitingInputMethod | AwaitingDetails | PendingConfirmation | NoStage

definition stage_of :: "session_state \<Rightarrow> stage" where
  "stage_of s =
     (if current_action s \<in> {Some ''add_data_initial_input'', Some ''delete_data_initial_input''}
      then InitialInput
      else if current_action s \<in>
                {Some ''awaiting_dml_input_method_add'', Some ''awaiting_dml_input_method_delete''}
      then AwaitingInputMethod
      else if current_action s \<in>
                {Some ''awaiting_structured_dml_details_add'',
                 Some ''awaiting_structured_dml_details_delete''}
      then AwaitingDetails
      else if pending_dml_confirmation s \<noteq> None then PendingConfirmation
      else NoStage)"

section \<open>Notions the claims are stated with\<close>

text \<open>
  A text starts with a keyword, case-insensitively and after trimming, when the first
  characters of the trimmed text, as many as the keyword has, are the keyword's letters,
  each in either case: \<open>ascii_upper\<close> maps a to z onto A to Z and leaves every other
  character alone.
\<close>

definition ascii_upper :: "char \<Rightarrow> char" where
  "ascii_upper c =
     (let n = (of_char c :: nat) in if 97 \<le> n \<and> n \<le> 122 then char_of (n - 32) else c)"

definition starts_with_keyword :: "string \<Rightarrow> string \<Rightarrow> bool" where
  "starts_with_keyword sql_text kw =
     (map ascii_upper (take (length kw) (strip sql_text)) = kw)"

text \<open>
  A keyword of upper-case letters A to Z in which no S is followed by an S or ends the
  word: the upper case "SS" of U+00DF cannot be part of it.
\<close>

definition upper_letter :: "char \<Rightarrow> bool" where
  "upper_letter k = (65 \<le> (of_char k :: nat) \<and> (of_char k :: nat) \<le> 90)"

fun plain_keyword :: "string \<Rightarrow> bool" where
  "plain_keyword [] = True"
| "plain_keyword [k] = (upper_letter k \<and> k \<noteq> CHR ''S'')"
| "plain_keyword (k # k2 # ks) =
     (upper_letter k \<and> (k = CHR ''S'' \<longrightarrow> k2 \<noteq> CHR ''S'') \<and> plain_keyword (k2 # ks))"


text \<open>Successive calls of \<open>get_schema\<close>: the texts returned and the database after them.\<close>

fun get_schema_times :: "nat \<Rightarrow> database option \<Rightarrow> string list \<times> database option" where
  "get_schema_times 0 db = ([], db)"
| "get_schema_times (Suc n) db =
     (let (schema, db1) = get_schema db;
          (schemas, db2) = get_schema_times n db1
      in (schema # schemas, db2))"

definition schema_text :: "database \<Rightarrow> string" where
  "schema_text d = (case table_info d of Inr info \<Rightarrow> info | Inl e \<Rightarrow> ''Error getting schema: '' @ e)"

text \<open>
  The Form input method is permitted by a guidance whose target table is not "Unknown"
  and whose list of suggested fields is not empty. An absent target table reads as
  "Unknown" and a \<open>null\<close> is not the text "Unknown"; an absent list or a \<open>null\<close>
  reads as empty.
\<close>

definition form_permitted :: "guidance \<Rightarrow> bool" where
  "form_permitted g =
     ((case target_table g of Absent \<Rightarrow> False | Null \<Rightarrow> True | Present t \<Rightarrow> t \<noteq> ''Unknown'') \<and>
      (case suggested_fields g of Present fs \<Rightarrow> fs \<noteq> [] | _ \<Rightarrow> False))"

text \<open>
  What the DML generation chain returns for the details the session holds, for the
  action verb \<open>v\<close>.
\<close>

definition dml_request :: "collaborators \<Rightarrow> database option \<Rightarrow> string \<Rightarrow> session_state \<Rightarrow> exn + string" where
  "dml_request co db v s =
     dml_generation_chain co (upper v) (action_description v)
       (if dml_input_method s = Some ''form'' then structured_details (dml_form_inputs s)
        else dml_text_details s)
       (fst (get_schema db))"

text \<open>
  A text is generated in a sequence of runs when the DML generation chain of one of
  its runs returns it for some request.
\<close>

definition generated_in :: "(collaborators \<times> ui) list \<Rightarrow> string \<Rightarrow> bool" where
  "generated_in trace generated =
     (\<exists>step\<in>set trace. \<exists>action_type action_desc details schema.
        dml_generation_chain (fst step) action_type action_desc details schema = Inr generated)"

text \<open>
  What holds of every reachable session: a pending confirmation carries an action verb
  of the two flows and a text without the refusal prefix; the form is the input method
  of the details stage only under a guidance that enables it; the first stage has no
  guidance yet.
\<close>

definition pending_ok :: "session_state \<Rightarrow> bool" where
  "pending_ok s =
     (case pending_dml_confirmation s of
        None \<Rightarrow> True
      | Some p \<Rightarrow> \<not> startswith (sql p) ''Error generating DML:'' \<and> (action p = ''add'' \<or> action p = ''delete''))"

definition form_ready :: "guidance option \<Rightarrow> bool" where
  "form_ready go = (case go of None \<Rightarrow> False | Some g \<Rightarrow> \<not> form_disabled g)"

definition form_ok :: "session_state \<Rightarrow> bool" where
  "form_ok s =
     (current_action s \<in> {Some ''awaiting_structured_dml_details_add'',
                           Some ''awaiting_structured_dml_details_delete''} \<and>
      dml_input_method s = Some ''form'' \<longrightarrow> form_ready (dml_guidance_message s))"

definition initial_ok :: "session_state \<Rightarrow> bool" where
  "initial_ok s =
     (current_action s \<in> {Some ''add_data_initial_input'', Some ''delete_data_initial_input''} \<longrightarrow>
      dml_guidance_message s = None)"

definition session_inv :: "session_state \<Rightarrow> bool" where
  "session_inv s = (pending_ok s \<and> form_ok s \<and> initial_ok s)"

section \<open>A database, collaborators and sessions for concrete runs\<close>

text \<open>A database with one table, and a DELETE statement that mentions a sentinel.\<close>

definition demo_db :: database where
  "demo_db =
     \<lparr>table_info = Inr ''CREATE TABLE Artist (ArtistId INTEGER, Name TEXT)'',
      run_result = (\<lambda>q. Inr ''[(275,)]''),
      calls = []\<rparr>"


text \<open>
  A guidance that names a table and a field, the guidance for a vague description, the
  empty JSON object, and a guidance whose target table is \<open>null\<close>.
\<close>

definition demo_guidance :: guidance where
  "demo_guidance =
     \<lparr>target_table = Present ''Artist'', suggested_fields = Present [''Name''],
      guidance_text = Present ''To add data for table Artist, please provide details.'',
      fields_template_text = Absent, example_text = Absent, other_keys = True\<rparr>"

definition vague_guidance :: guidance where
  "vague_guidance =
     \<lparr>target_table = Present ''Unknown'', suggested_fields = Present [],
      guidance_text = Present ''Your description is a bit too general.'',
      fields_template_text = Absent, example_text = Absent, other_keys = True\<rparr>"

definition empty_guidance :: guidance where
  "empty_guidance =
     \<lparr>target_table = Absent, suggested_fields = Absent, guidance_text = Absent,
      fields_template_text = Absent, example_text = Absent, other_keys = False\<rparr>"

definition null_table_guidance :: guidance where
  "null_table_guidance =
     \<lparr>target_table = Null, suggested_fields = Present [''Name''], guidance_text = Absent,
      fields_template_text = Absent, example_text = Absent, other_keys = False\<rparr>"

text \<open>Collaborators whose model answers the DML generation prompt with a given text.\<close>

definition demo_collaborators :: "string \<Rightarrow> collaborators" where
  "demo_collaborators dml_text =
     \<lparr>initial_processing_chain =
        (\<lambda>schema question.
           Inr \<lparr>response_type = Some ''GENERAL_RESPONSE'', generated_sql = None,
                llm_ai_response = Some ''Hello!''\<rparr>),
      select_answer_chain = (\<lambda>question generated_sql sql_response. Inr ''There are 275 artists.''),
      dml_guidance_chain = (\<lambda>action_type action_desc initial_desc schema. Inr (Some demo_guidance)),
      dml_generation_llm = (\<lambda>action_type action_desc details schema. Inr dml_text),
      db_summary_chain = (\<lambda>schema. Inr ''A music store.''),
      format_exc = []\<rparr>"

text \<open>
  The widgets of a run: an event with the content of the text area (the form's text
  inputs empty), or an event with one content for every text input of the form.
\<close>

definition user :: "event \<Rightarrow> string \<Rightarrow> ui" where
  "user e t = \<lparr>event = e, text_area = t, text_input = (\<lambda>field. [])\<rparr>"

definition form_ui :: "event \<Rightarrow> string \<Rightarrow> ui" where
  "form_ui e v = \<lparr>event = e, text_area = [], text_input = (\<lambda>field. v)\<rparr>"

text \<open>
  Collaborators whose model answers the guidance prompt with a given JSON value, and
  the Add flow up to the run that stores that answer.
\<close>

definition guidance_collaborators :: "guidance option \<Rightarrow> collaborators" where
  "guidance_collaborators answer =
     \<lparr>initial_processing_chain =
        (\<lambda>schema question.
           Inr \<lparr>response_type = Some ''GENERAL_RESPONSE'', generated_sql = None,
                llm_ai_response = Some ''Hello!''\<rparr>),
      select_answer_chain = (\<lambda>question generated_sql sql_response. Inr ''There are 275 artists.''),
      dml_guidance_chain = (\<lambda>action_type action_desc initial_desc schema. Inr answer),
      dml_generation_llm = (\<lambda>action_type action_desc details schema. Inr ''SELECT 1''),
      db_summary_chain = (\<lambda>schema. Inr ''A music store.''),
      format_exc = []\<rparr>"

definition guidance_flow :: "guidance option \<Rightarrow> (collaborators \<times> ui) list" where
  "guidance_flow answer =
     map (Pair (guidance_collaborators answer))
       [user ClickAddData [], user NoEvent [],
        user ClickGetGuidance ''add an artist'', user NoEvent []]"

definition unguided_session :: "guidance option \<Rightarrow> session_state" where
  "unguided_session answer =
     initial_session
       \<lparr>current_action := Some ''awaiting_dml_input_method_add'',
        dml_initial_description := ''add an artist'',
        dml_guidance_message := answer\<rparr>"

text \<open>A refusal and a statement, as the DML generation chain may return them.\<close>

definition refusal :: string where
  "refusal = ''Error generating DML: Missing critical information for insert: Name.''"

definition insert_statement :: string where
  "insert_statement = ''INSERT INTO Artist (Name) VALUES (1)''"

text \<open>
  The Add flow up to the run that generates the statement, with free-text details, and
  the sessions it passes through: the initial-description stage, the input-method
  stage (also under the vague guidance), the details stage (also with a filled form),
  the run that generates, and the confirmation stage.
\<close>

definition add_flow :: "string \<Rightarrow> (collaborators \<times> ui) list" where
  "add_flow dml_text =
     map (Pair (demo_collaborators dml_text))
       [user ClickAddData [], user NoEvent [],
        user ClickGetGuidance ''add an artist'', user NoEvent [], user NoEvent [],
        user ClickDescribeText [], user NoEvent [],
        user ClickGenerateFromText ''Name=Test Band'', user NoEvent []]"

definition initial_input_session :: session_state where
  "initial_input_session = initial_session\<lparr>current_action := Some ''add_data_initial_input''\<rparr>"

definition method_session :: session_state where
  "method_session =
     initial_session
       \<lparr>current_action := Some ''awaiting_dml_input_method_add'',
        dml_initial_description := ''add an artist'',
        dml_guidance_message := Some demo_guidance\<rparr>"

definition vague_session :: session_state where
  "vague_session = method_session\<lparr>dml_guidance_message := Some vague_guidance\<rparr>"

definition details_session :: "string \<Rightarrow> session_state" where
  "details_session m =
     method_session
       \<lparr>current_action := Some ''awaiting_structured_dml_details_add'',
        dml_input_method := Some m\<rparr>"

definition filled_session :: session_state where
  "filled_session = (details_session ''form'')\<lparr>dml_form_inputs := [(''Name'', ''Test Band'')]\<rparr>"

definition generation_session :: session_state where
  "generation_session =
     (details_session ''text'')
       \<lparr>current_action := Some ''process_structured_dml_add'',
        dml_text_details := ''Name=Test Band''\<rparr>"

definition confirmation_session :: "string \<Rightarrow> session_state" where
  "confirmation_session dml_text =
     generation_session
       \<lparr>pending_dml_confirmation := Some \<lparr>action = ''add'', sql = dml_text\<rparr>\<rparr>"

text \<open>
  Two continuations of the flow: a chat submission in the initial-description stage,
  and the Summarize Database quick action at the confirmation stage with the run that
  follows it.
\<close>

definition chat_in_initial_input :: "(collaborators \<times> ui) list" where
  "chat_in_initial_input =
     take 2 (add_flow insert_statement) @
     [(demo_collaborators insert_statement, user (ChatInput ''How many artists are there?'') [])]"

definition summarize_at_confirmation :: "(collaborators \<times> ui) list" where
  "summarize_at_confirmation =
     add_flow insert_statement @
     map (Pair (demo_collaborators insert_statement)) [user ClickSummarize [], user NoEvent []]"

text \<open>
  The Add flow with the rerun that follows the generating run, in which the model
  refuses the same request.
\<close>

definition refusal_after_generation :: "(collaborators \<times> ui) list" where
  "refusal_after_generation =
     add_flow insert_statement @ [(demo_collaborators refusal, user NoEvent [])]"

text \<open>Texts that begin with U+00A0, and a text of white space outside ASCII.\<close>

definition nbsp_select :: string where
  "nbsp_select = CHR 0xA0 # ''select 1''"


definition nbsp_blank :: string where
  "nbsp_blank = [CHR 0xA0, CHR 0x85]"

section \<open>Facts about the string operations\<close>

lemma lower_Add: "lower ''Add'' = ''add''" by code_simp
lemma lower_Delete: "lower ''Delete'' = ''delete''" by code_simp
lemma lower_verb: "lower (action_verb_of ca) = (if contains ca ''add'' then ''add'' else ''delete'')"
  by (simp add: action_verb_of_def lower_Add lower_Delete)

lemma startswith_prefix: "startswith s p = prefix p s"
  by (induction s p rule: startswith.induct) auto

lemma contains_sublist: "contains s p = sublist p s"
  by (induction s) (simp_all add: startswith_prefix sublist_Cons_right)

lemma endswith_suffix: "endswith s p = suffix p s"
  by (simp add: endswith_def startswith_prefix suffix_to_prefix)

lemma startswith_take: "startswith s p = (take (length p) s = p)"
  by (induction s p rule: startswith.induct) auto

lemma verb_texts:
  "capitalize ''add'' @ points '' operation cancelled.'' = points ''Add operation cancelled.''"
  "capitalize ''delete'' @ points '' operation cancelled.'' =
     points ''Delete operation cancelled.''"
  by code_simp+

text \<open>
  The upper case of a text starts with a keyword exactly when the text starts with the
  keyword's letters in either case: no character outside a to z has an upper case that
  begins with a letter A to Z, but for U+00DF, whose upper case is "SS".
\<close>

lemma of_char_less: "(of_char c :: nat) < 256"
  by (metis of_char_mod_256 mod_less_divisor zero_less_numeral)

lemma of_char_S: "((of_char k :: nat) = 83) = (k = CHR ''S'')"
proof -
  have "(of_char (CHR ''S'') :: nat) = 83" by simp
  then show ?thesis by (metis of_char_eq_iff)
qed

lemma upper_char_cases: "upper_char c = [83, 83] \<or> (\<exists>x. upper_char c = [x])"
  by (simp add: upper_char_def Let_def)

lemma upper_char_letter:
  assumes "upper_letter k"
  shows "(upper_char c = [of_char k]) = (ascii_upper c = k)"
proof -
  have lt: "(of_char c :: nat) < 256" by (rule of_char_less)
  have "(ascii_upper c = k) = ((of_char (ascii_upper c) :: nat) = of_char k)"
    by simp
  also have "\<dots> = (upper_char c = [of_char k])"
    using assms lt by (auto simp add: ascii_upper_def upper_char_def upper_letter_def Let_def)
  finally show ?thesis by simp
qed

lemma startswith_upper:
  "plain_keyword kw \<Longrightarrow>
   startswith (upper t) (points kw) = (map ascii_upper (take (length kw) t) = kw)"
proof (induction kw arbitrary: t rule: plain_keyword.induct)
  case 1
  then show ?case by (simp add: points_def)
next
  case (2 k)
  show ?case
  proof (cases t)
    case Nil
    then show ?thesis by (simp add: points_def upper_def)
  next
    case (Cons c cs)
    from 2 have k: "upper_letter k" "k \<noteq> CHR ''S''" by simp_all
    from upper_char_cases [of c] show ?thesis
    proof
      assume d: "upper_char c = [83, 83]"
      then have "ascii_upper c \<noteq> k"
        using upper_char_letter [OF k(1), of c] by auto
      then show ?thesis
        using k(2) d by (simp add: Cons points_def upper_def of_char_S [symmetric])
    next
      assume "\<exists>x. upper_char c = [x]"
      then obtain x where x: "upper_char c = [x]" by blast
      show ?thesis
        using upper_char_letter [OF k(1), of c]
        by (auto simp add: Cons points_def upper_def x)
    qed
  qed
next
  case (3 k k2 ks)
  from "3.prems" have k: "upper_letter k" "k = CHR ''S'' \<longrightarrow> k2 \<noteq> CHR ''S''"
    and rest: "plain_keyword (k2 # ks)" by simp_all
  show ?case
  proof (cases t)
    case Nil
    then show ?thesis by (simp add: points_def upper_def)
  next
    case (Cons c cs)
    have ih: "startswith (upper cs) (points (k2 # ks)) =
                (map ascii_upper (take (length (k2 # ks)) cs) = k2 # ks)"
      using rest by (rule "3.IH")
    from upper_char_cases [of c] show ?thesis
    proof
      assume d: "upper_char c = [83, 83]"
      then have n: "ascii_upper c \<noteq> k"
        using upper_char_letter [OF k(1), of c] by auto
      have "\<not> startswith (upper t) (points (k # k2 # ks))"
        using k(2) d by (auto simp add: Cons points_def upper_def of_char_S [symmetric])
      then show ?thesis
        using n by (simp add: Cons)
    next
      assume "\<exists>x. upper_char c = [x]"
      then obtain x where x: "upper_char c = [x]" by blast
      have "startswith (upper t) (points (k # k2 # ks)) =
              (x = of_char k \<and> startswith (upper cs) (points (k2 # ks)))"
        by (simp add: Cons points_def upper_def x)
      then show ?thesis
        using upper_char_letter [OF k(1), of c] ih
        by (auto simp add: Cons x)
    qed
  qed
qed

lemma plain_keywords:
  "plain_keyword ''SELECT''" "plain_keyword ''INSERT''" "plain_keyword ''DELETE''"
  "plain_keyword ''UPDATE''"
  by (simp_all add: upper_letter_def)

lemma startswith_upper_keyword:
  "startswith (upper (strip sql_text)) (points ''SELECT'') = starts_with_keyword sql_text ''SELECT''"
  "startswith (upper (strip sql_text)) (points ''INSERT'') = starts_with_keyword sql_text ''INSERT''"
  "startswith (upper (strip sql_text)) (points ''DELETE'') = starts_with_keyword sql_text ''DELETE''"
  "startswith (upper (strip sql_text)) (points ''UPDATE'') = starts_with_keyword sql_text ''UPDATE''"
  by (simp_all only: startswith_upper [OF plain_keywords(1)] startswith_upper [OF plain_keywords(2)]
      startswith_upper [OF plain_keywords(3)] startswith_upper [OF plain_keywords(4)]
      starts_with_keyword_def)


section \<open>An invariant of the script runs\<close>

lemmas inv_defs = session_inv_def pending_ok_def form_ok_def initial_ok_def

lemma inv_initial: "session_inv initial_session"
  by (simp add: inv_defs initial_session_def)

lemma inv_quick_action:
  "stage \<in> {''add_data_initial_input'', ''delete_data_initial_input''} \<Longrightarrow> session_inv s \<Longrightarrow> session_inv (quick_action stage s)"
  by (auto simp add: inv_defs quick_action_def)

lemma inv_summarize:
  "session_inv s \<Longrightarrow> session_inv (s\<lparr>current_action := Some ''summarize_db''\<rparr>)"
  by (simp add: inv_defs)

lemma inv_initial_input_stage:
  assumes "session_inv s" "current_action s \<in> {Some ''add_data_initial_input'', Some ''delete_data_initial_input''}" 
  shows "session_inv (fst (initial_input_stage u ca s))"
  using assms
  by (auto simp add: inv_defs initial_input_stage_def lower_verb Let_def)

lemma inv_input_method_stage:
  assumes "session_inv s" "current_action s \<in> {Some ''awaiting_dml_input_method_add'', Some ''awaiting_dml_input_method_delete''}"
  shows "session_inv (fst (input_method_stage u ca s))"
  using assms
  by (auto simp add: inv_defs input_method_stage_def lower_verb Let_def form_ready_def split: option.splits)


lemma go_back_button_proj:
  "pending_dml_confirmation (fst (go_back_button u v s ns)) = pending_dml_confirmation s"
  "dml_guidance_message (fst (go_back_button u v s ns)) = dml_guidance_message s"
  "dml_input_method (fst (go_back_button u v s ns)) = dml_input_method s"
  "messages (fst (go_back_button u v s ns)) = messages s"
  "dml_initial_description (fst (go_back_button u v s ns)) = dml_initial_description s"
  "current_action (fst (go_back_button u v s ns)) =
     (if event u = ClickGoBack then Some (''awaiting_dml_input_method_'' @ lower v) else current_action s)"
  by (simp_all add: go_back_button_def)

lemma details_stage_proj:
  "pending_dml_confirmation (fst (details_stage u ca s)) = pending_dml_confirmation s"
  "dml_guidance_message (fst (details_stage u ca s)) = dml_guidance_message s"
  "dml_input_method (fst (details_stage u ca s)) = dml_input_method s"
  "messages (fst (details_stage u ca s)) = messages s"
  "dml_initial_description (fst (details_stage u ca s)) = dml_initial_description s"
  by (simp_all add: details_stage_def details_form_def details_text_def Let_def go_back_button_proj
      split: option.split prod.split bool.split)

lemma details_stage_action:
  "current_action (fst (details_stage u ca s)) \<in>
     {current_action s,
      Some (''awaiting_dml_input_method_'' @ lower (action_verb_of ca)),
      Some (''process_structured_dml_'' @ lower (action_verb_of ca))}"
  by (simp add: details_stage_def details_form_def details_text_def Let_def go_back_button_proj
      split: option.split prod.split bool.split)

lemma inv_details_stage:
  assumes "session_inv s"
  shows "session_inv (fst (details_stage u ca s))"
  using assms details_stage_action [of u ca s]
  by (auto simp add: inv_defs details_stage_proj lower_verb split: if_splits)

lemma inv_confirmation_stage:
  assumes "session_inv s"
  shows "session_inv (fst (confirmation_stage u p s))"
  using assms
  by (auto simp add: inv_defs confirmation_stage_def Let_def)

lemma inv_dml_stages:
  assumes "session_inv s"
  shows "session_inv (fst (dml_stages u s))"
  using assms
  by (simp add: dml_stages_def inv_initial_input_stage inv_input_method_stage inv_details_stage
      inv_confirmation_stage split: option.split)

lemma inv_chat_input:
  assumes "session_inv s"
  shows "session_inv (fst (chat_input u s))"
  using assms
  by (auto simp add: inv_defs chat_input_def split: event.split)


lemma inv_on_exception:
  "session_inv s \<Longrightarrow> session_inv (on_exception co e s)"
  by (simp add: inv_defs on_exception_def)

lemma inv_process_chat_input:
  "session_inv s \<Longrightarrow> session_inv (fst (process_chat_input co db s))"
  by (simp add: process_chat_input_def inv_on_exception split: prod.split sum.split)
     (simp add: inv_defs)

lemma inv_process_initial_dml_description:
  "session_inv s \<Longrightarrow> session_inv (fst (process_initial_dml_description co db a s))"
  by (simp add: process_initial_dml_description_def Let_def inv_on_exception
      split: prod.split sum.split)
     (simp add: inv_defs)

lemma inv_process_structured_dml:
  assumes "session_inv s" "startswith a ''process_structured_dml_''" "current_action s = Some a"
  shows "session_inv (fst (process_structured_dml co db a s))"
proof -
  have a: "a \<noteq> ''awaiting_structured_dml_details_add''" "a \<noteq> ''awaiting_structured_dml_details_delete''"
    "a \<noteq> ''add_data_initial_input''" "a \<noteq> ''delete_data_initial_input''"
    using assms(2) by auto
  show ?thesis
    using assms(1,3) a
    by (simp add: process_structured_dml_def Let_def inv_on_exception
        split: prod.split sum.split)
       (simp add: inv_defs)
qed

lemma inv_process_summarize_db:
  "session_inv s \<Longrightarrow> session_inv (fst (process_summarize_db co db s))"
  by (simp add: process_summarize_db_def Let_def inv_on_exception split: prod.split sum.split)
     (simp add: inv_defs)

lemma inv_process_actions:
  "session_inv s \<Longrightarrow> session_inv (fst (process_actions co db s))"
  by (simp add: process_actions_def inv_process_chat_input inv_process_initial_dml_description
      inv_process_structured_dml inv_process_summarize_db split: option.split)

lemma inv_script_run:
  "session_inv s \<Longrightarrow> session_inv (session (script_run co db s u))"
  using inv_dml_stages [of s u] inv_chat_input [of "fst (dml_stages u s)" u]
    inv_process_actions [of "fst (chat_input u (fst (dml_stages u s)))" co db]
  by (auto simp add: script_run_def inv_quick_action inv_summarize split: prod.split option.split)

lemma inv_runs:
  "session_inv s \<Longrightarrow> session_inv (fst (runs db s trace))"
proof (induction trace arbitrary: db s)
  case Nil
  then show ?case by simp
next
  case (Cons step trace)
  obtain co u where step: "step = (co, u)" by (cases step)
  have "session_inv (session (script_run co db s u))"
    using Cons.prems by (rule inv_script_run)
  then have "session_inv (fst (runs (db_after (script_run co db s u)) (session (script_run co db s u)) trace))"
    by (rule Cons.IH)
  then show ?case
    by (auto simp add: step Let_def split: prod.split)
qed

lemma inv_reachable: "reachable db0 s \<Longrightarrow> session_inv s"
  using inv_runs [OF inv_initial] by (auto simp add: reachable_def)

section \<open>The read path refuses what is not a SELECT\<close>



text \<open>
  Otherwise the trimmed query is sent to the database, which the call log shows, and a
  database exception comes back as text. A query that begins with U+00A0 is trimmed like
  one that begins with a space.
\<close>

lemma run_select_query_executes:
  assumes "sql_query \<noteq> []" "\<not> sublist ''Cannot answer'' sql_query"
    "\<not> sublist ''Error: SQL not generated'' sql_query"
    "starts_with_keyword sql_query ''SELECT''"
  shows "snd (run_select_query (Some d) sql_query) =
           Some (d\<lparr>calls := calls d @ [Run (strip sql_query)]\<rparr>)"
  using assms
  by (simp add: run_select_query_def contains_sublist startswith_upper_keyword db_run_def
      split: sum.split)

lemma run_select_query_nbsp:
  "starts_with_keyword nbsp_select ''SELECT'' \<and>
   map_option calls (snd (run_select_query (Some demo_db) nbsp_select)) = Some [Run ''select 1'']"
  by code_simp

section \<open>The confirmation stage\<close>

lemma stage_of_confirmation:
  assumes "stage_of s = PendingConfirmation"
  shows "current_action s \<notin> {Some ''add_data_initial_input'', Some ''delete_data_initial_input''}"
    "current_action s \<notin> {Some ''awaiting_dml_input_method_add'', Some ''awaiting_dml_input_method_delete''}"
    "current_action s \<notin> {Some ''awaiting_structured_dml_details_add'', Some ''awaiting_structured_dml_details_delete''}"
    "pending_dml_confirmation s \<noteq> None"
  using assms by (simp_all add: stage_of_def split: if_splits)

lemma script_run_confirmation:
  assumes "stage_of s = PendingConfirmation" "pending_dml_confirmation s = Some p"
    "event u = ClickProceed \<or> event u = ClickCancelConfirmation"
  shows "script_run co db s u =
           \<lparr>session = fst (confirmation_stage u p s), db_after = db, notices = [], outcome = Rerun\<rparr>"
  using assms stage_of_confirmation [OF assms(1)]
  by (auto simp add: script_run_def dml_stages_def confirmation_stage_def Let_def)

section \<open>Simulated execution\<close>




section \<open>The schema text\<close>

lemma get_schema_Some:
  "get_schema (Some d) = (schema_text d, Some (d\<lparr>calls := calls d @ [GetTableInfo]\<rparr>))"
  by (simp add: get_schema_def db_get_table_info_def schema_text_def split: sum.split)

lemma get_schema_times_Some:
  "get_schema_times n (Some d) =
     (replicate n (schema_text d), Some (d\<lparr>calls := calls d @ replicate n GetTableInfo\<rparr>))"
proof (induction n arbitrary: d)
  case 0
  show ?case by simp
next
  case (Suc n)
  show ?case
    by (simp add: get_schema_Some Suc.IH schema_text_def replicate_app_Cons_same)
qed

lemma get_schema_times_None:
  "get_schema_times n None = (replicate n ''Error: Database connection not available.'', None)"
  by (induction n) (simp_all add: get_schema_def)

text \<open>
  C6, as amended. \<open>get_schema\<close> is not memoized: each of \<open>n\<close> successive calls asks the
  database for its table info, so the call log grows by \<open>n\<close> entries. It never raises:
  it returns the table info, or "Error getting schema: " followed by the message when
  the database raises, or the fixed text "Error: Database connection not available."
  when there is no connection.
\<close>

theorem get_schema_amended:
  "get_schema_times n None = (replicate n ''Error: Database connection not available.'', None) \<and>
   get_schema_times n (Some d) =
     (replicate n (case table_info d of Inr info \<Rightarrow> info | Inl e \<Rightarrow> ''Error getting schema: '' @ e),
      Some (d\<lparr>calls := calls d @ replicate n GetTableInfo\<rparr>))"
  using get_schema_times_Some [of n d] get_schema_times_None [of n]
  by (simp add: schema_text_def)

text \<open>
  C6 as stated fails: the second call of \<open>get_schema\<close> queries the database again.
\<close>

theorem get_schema_counterexample:
  "map_option calls (snd (get_schema (snd (get_schema (Some demo_db))))) =
     Some [GetTableInfo, GetTableInfo]"
  by code_simp

theorem get_schema_amended_witness:
  "map_option calls (snd (get_schema_times 3 (Some demo_db))) =
     Some [GetTableInfo, GetTableInfo, GetTableInfo] \<and>
   fst (get_schema_times 3 None) = replicate 3 ''Error: Database connection not available.''"
  using get_schema_amended [of 3 demo_db]
  by (simp add: demo_db_def numeral_3_eq_3)

section \<open>Script runs at each stage\<close>

lemma verb_simps:
  "action_verb_of ''add_data_initial_input'' = ''Add''"
  "action_verb_of ''delete_data_initial_input'' = ''Delete''"
  "action_verb_of ''awaiting_dml_input_method_add'' = ''Add''"
  "action_verb_of ''awaiting_dml_input_method_delete'' = ''Delete''"
  "action_verb_of ''awaiting_structured_dml_details_add'' = ''Add''"
  "action_verb_of ''awaiting_structured_dml_details_delete'' = ''Delete''"
  by (simp_all add: action_verb_of_def)

lemma chat_input_other_event:
  "(case event u of ChatInput t \<Rightarrow> False | _ \<Rightarrow> True) \<Longrightarrow> chat_input u s = (s, None)"
  by (cases "event u") (simp_all add: chat_input_def)

lemma process_actions_initial_input:
  assumes "current_action s = Some ca"
    "ca = ''add_data_initial_input'' \<or> ca = ''delete_data_initial_input''"
  shows "process_actions co db s = (s, db, [], Finished)"
  using assms(2) by (elim disjE) (simp_all add: process_actions_def assms(1))

lemma process_actions_input_method:
  assumes "current_action s = Some ca"
    "ca = ''awaiting_dml_input_method_add'' \<or> ca = ''awaiting_dml_input_method_delete''"
  shows "process_actions co db s = (s, db, [], Finished)"
  using assms(2) by (elim disjE) (simp_all add: process_actions_def assms(1))

lemma process_actions_details:
  assumes "current_action s = Some ca"
    "ca = ''awaiting_structured_dml_details_add'' \<or> ca = ''awaiting_structured_dml_details_delete''"
  shows "process_actions co db s = (s, db, [], Finished)"
  using assms(2) by (elim disjE) (simp_all add: process_actions_def assms(1))

lemma process_actions_idle:
  "current_action s = None \<Longrightarrow> process_actions co db s = (s, db, [], Finished)"
  by (simp add: process_actions_def)

lemma dml_stages_initial_input:
  assumes "current_action s = Some ca"
    "ca = ''add_data_initial_input'' \<or> ca = ''delete_data_initial_input''"
  shows "dml_stages u s = initial_input_stage u ca s"
  using assms(2) by (elim disjE) (simp_all add: dml_stages_def assms(1))

lemma dml_stages_input_method:
  assumes "current_action s = Some ca"
    "ca = ''awaiting_dml_input_method_add'' \<or> ca = ''awaiting_dml_input_method_delete''"
  shows "dml_stages u s = input_method_stage u ca s"
  using assms(2) by (elim disjE) (simp_all add: dml_stages_def assms(1))

lemma dml_stages_details:
  assumes "current_action s = Some ca"
    "ca = ''awaiting_structured_dml_details_add'' \<or> ca = ''awaiting_structured_dml_details_delete''"
  shows "dml_stages u s = details_stage u ca s"
  using assms(2) by (elim disjE) (simp_all add: dml_stages_def assms(1))

text \<open>Runs started in the input-method stage.\<close>

lemma script_run_fill_form:
  assumes "current_action s = Some ca"
    "ca = ''awaiting_dml_input_method_add'' \<or> ca = ''awaiting_dml_input_method_delete''"
    "dml_guidance_message s = Some g" "dict_truthy g"
    "event u = ClickFillForm"
  shows "script_run co db s u =
           (if form_disabled g
            then \<lparr>session = s, db_after = db, notices = [], outcome = Finished\<rparr>
            else \<lparr>session = s\<lparr>dml_input_method := Some ''form'',
                               current_action := Some (''awaiting_structured_dml_details_'' @ lower (action_verb_of ca))\<rparr>,
                  db_after = db, notices = [], outcome = Rerun\<rparr>)"
proof -
  have st: "dml_stages u s = input_method_stage u ca s"
    using assms(1,2) by (rule dml_stages_input_method)
  have pa: "process_actions co db s = (s, db, [], Finished)"
    using assms(1,2) by (rule process_actions_input_method)
  show ?thesis
    by (simp add: script_run_def st pa input_method_stage_def assms(3,4,5) Let_def
        chat_input_other_event)
qed


lemma script_run_describe_text:
  assumes "current_action s = Some ca"
    "ca = ''awaiting_dml_input_method_add'' \<or> ca = ''awaiting_dml_input_method_delete''"
    "dml_guidance_message s = Some g" "dict_truthy g"
    "event u = ClickDescribeText"
  shows "script_run co db s u =
           \<lparr>session = s\<lparr>dml_input_method := Some ''text'',
                               current_action := Some (''awaiting_structured_dml_details_'' @ lower (action_verb_of ca))\<rparr>,
                  db_after = db, notices = [], outcome = Rerun\<rparr>"
proof -
  have st: "dml_stages u s = input_method_stage u ca s"
    using assms(1,2) by (rule dml_stages_input_method)
  show ?thesis
    by (simp add: script_run_def st input_method_stage_def assms(3,4,5) Let_def)
qed

lemma script_run_cancel_operation:
  assumes "current_action s = Some ca"
    "ca = ''awaiting_dml_input_method_add'' \<or> ca = ''awaiting_dml_input_method_delete''"
    "dml_guidance_message s = Some g" "dict_truthy g"
    "event u = ClickCancelOperation"
  shows "script_run co db s u =
           \<lparr>session = s\<lparr>current_action := None, dml_guidance_message := None\<rparr>,
                  db_after = db, notices = [], outcome = Rerun\<rparr>"
proof -
  have st: "dml_stages u s = input_method_stage u ca s"
    using assms(1,2) by (rule dml_stages_input_method)
  show ?thesis
    by (simp add: script_run_def st input_method_stage_def assms(3,4,5) Let_def)
qed


text \<open>Runs started in the initial-description stage.\<close>

lemma script_run_get_guidance:
  assumes "current_action s = Some ca"
    "ca = ''add_data_initial_input'' \<or> ca = ''delete_data_initial_input''"
    "event u = ClickGetGuidance"
  shows "script_run co db s u =
           (if strip (text_area u) \<noteq> []
            then \<lparr>session = s\<lparr>dml_initial_description := text_area u,
                               current_action :=
                                 Some (''process_initial_dml_description_'' @ lower (action_verb_of ca))\<rparr>,
                  db_after = db, notices = [], outcome = Rerun\<rparr>
            else \<lparr>session = s\<lparr>dml_initial_description := text_area u\<rparr>, db_after = db,
                  notices = [Warning ''Please provide an initial description.''],
                  outcome = Finished\<rparr>)"
proof -
  have st: "dml_stages u s = initial_input_stage u ca s"
    using assms(1,2) by (rule dml_stages_initial_input)
  have pa: "process_actions co db (s\<lparr>dml_initial_description := text_area u\<rparr>) =
              (s\<lparr>dml_initial_description := text_area u\<rparr>, db, [], Finished)"
    by (rule process_actions_initial_input [where ca = ca]) (simp_all add: assms)
  show ?thesis
    by (simp add: script_run_def st pa initial_input_stage_def assms(3) Let_def
        chat_input_other_event)
qed

lemma script_run_cancel:
  assumes "current_action s = Some ca"
    "ca = ''add_data_initial_input'' \<or> ca = ''delete_data_initial_input''"
    "event u = ClickCancel"
  shows "script_run co db s u =
           \<lparr>session = s\<lparr>dml_initial_description := text_area u, current_action := None\<rparr>,
            db_after = db, notices = [], outcome = Rerun\<rparr>"
proof -
  have st: "dml_stages u s = initial_input_stage u ca s"
    using assms(1,2) by (rule dml_stages_initial_input)
  show ?thesis
    by (simp add: script_run_def st initial_input_stage_def assms(3) Let_def)
qed

text \<open>Runs started in the details stage.\<close>

lemma form_inputs_loop_completes:
  "snd (form_inputs_loop u v seen fs inputs) =
     (distinct (map (widget_key v) fs) \<and> set (map (widget_key v) fs) \<inter> set seen = {})"
  by (induction fs arbitrary: seen inputs) auto

lemma dict_get_dict_set:
  "dict_get (dict_set inputs k v) k' = (if k' = k then Some v else dict_get inputs k')"
  by (induction inputs) (auto simp add: dict_get_def)

lemma form_inputs_loop_get:
  "snd (form_inputs_loop u v seen fs inputs) \<Longrightarrow>
   dict_get (fst (form_inputs_loop u v seen fs inputs)) f =
     (if f \<in> set fs then Some (text_input u f) else dict_get inputs f)"
proof (induction fs arbitrary: seen inputs)
  case Nil
  then show ?case by simp
next
  case (Cons a fs)
  from Cons.prems have k: "widget_key v a \<notin> set seen"
    and r: "snd (form_inputs_loop u v (widget_key v a # seen) fs (dict_set inputs a (text_input u a)))"
    by (auto split: if_splits)
  from r have "widget_key v a \<notin> set (map (widget_key v) fs)"
    by (auto simp add: form_inputs_loop_completes)
  then have nin: "a \<notin> set fs" by auto
  show ?case
    using k nin Cons.IH [OF r] by (auto simp add: dict_get_dict_set)
qed

lemma any_filled_empty:
  assumes "snd (form_inputs_loop u v [] fs inputs)" "\<forall>f\<in>set fs. text_input u f = []"
  shows "\<not> any_filled (fst (form_inputs_loop u v [] fs inputs)) fs"
  using assms by (auto simp add: any_filled_def list_ex_iff form_inputs_loop_get)


lemma go_back_button_clicked:
  "event u = ClickGoBack \<Longrightarrow>
   go_back_button u v s ns =
     (s\<lparr>current_action := Some (''awaiting_dml_input_method_'' @ lower v),
        dml_form_inputs := [], dml_text_details := []\<rparr>, ns, Some Rerun)"
  by (simp add: go_back_button_def)

lemma go_back_button_other:
  "event u \<noteq> ClickGoBack \<Longrightarrow> go_back_button u v s ns = (s, ns, None)"
  by (simp add: go_back_button_def)

lemma details_form_rendered:
  assumes "suggested_fields g = Present fs" "fs \<noteq> []" "distinct (map (widget_key v) fs)"
  shows "details_form u v g s =
           (let s1 = s\<lparr>dml_form_inputs := fst (form_inputs_loop u v [] fs (dml_form_inputs s))\<rparr> in
            if event u = SubmitForm then
              (if any_filled (dml_form_inputs s1) fs then
                 (s1\<lparr>current_action := Some (''process_structured_dml_'' @ lower v)\<rparr>,
                  [], Some Rerun)
               else go_back_button u v s1 [Warning ''Please fill in at least one field in the form.''])
            else go_back_button u v s1 [])"
proof -
  obtain inputs ok where l: "form_inputs_loop u v [] fs (dml_form_inputs s) = (inputs, ok)"
    by (cases "form_inputs_loop u v [] fs (dml_form_inputs s)")
  have "snd (form_inputs_loop u v [] fs (dml_form_inputs s))"
    using assms(3) by (simp add: form_inputs_loop_completes)
  then have ok: "ok" using l by simp
  show ?thesis
    by (simp add: details_form_def get_suggested_fields_def assms(1,2) l ok Let_def)
qed

lemma details_form_not_rendered:
  assumes "get_suggested_fields g = []"
  shows "details_form u v g s =
           go_back_button u v s
             [Warning (''No specific fields were suggested by the AI. Please use the '' @
                       quote @ ''Describe in Text'' @ quote @
                       '' option or ensure your initial description was clear.'')]"
  by (simp add: details_form_def assms)

lemma get_suggested_fields_Present:
  "get_suggested_fields g \<noteq> [] \<Longrightarrow> suggested_fields g = Present (get_suggested_fields g)"
  by (cases "suggested_fields g") (simp_all add: get_suggested_fields_def)

lemma details_stage_go_back:
  assumes "dml_guidance_message s = Some g" "dict_truthy g" "event u = ClickGoBack"
    "dml_input_method s = Some ''form'' \<longrightarrow>
       distinct (map (widget_key (action_verb_of ca)) (get_suggested_fields g))"
  shows "fst (details_stage u ca s) =
           s\<lparr>current_action := Some (''awaiting_dml_input_method_'' @ lower (action_verb_of ca)),
             dml_form_inputs := [], dml_text_details := []\<rparr> \<and>
         snd (snd (details_stage u ca s)) = Some Rerun"
proof (cases "dml_input_method s = Some ''form''")
  case form: True
  show ?thesis
  proof (cases "get_suggested_fields g = []")
    case True
    then show ?thesis
      by (simp add: details_stage_def details_form_not_rendered assms(1,2,3) form Let_def
          go_back_button_clicked)
  next
    case False
    have "distinct (map (widget_key (action_verb_of ca)) (get_suggested_fields g))"
      using assms(4) form by simp
    from details_form_rendered [OF get_suggested_fields_Present [OF False] False this]
    show ?thesis
      by (simp add: details_stage_def assms(1,2,3) form Let_def go_back_button_clicked)
  qed
next
  case False
  then show ?thesis
    by (simp add: details_stage_def details_text_def assms(1,2,3) Let_def
        go_back_button_clicked)
qed

lemma script_run_go_back:
  assumes "current_action s = Some ca"
    "ca = ''awaiting_structured_dml_details_add'' \<or> ca = ''awaiting_structured_dml_details_delete''"
    "dml_guidance_message s = Some g" "dict_truthy g" "event u = ClickGoBack"
    "dml_input_method s = Some ''form'' \<longrightarrow>
       distinct (map (widget_key (action_verb_of ca)) (get_suggested_fields g))"
  shows "session (script_run co db s u) =
           s\<lparr>current_action := Some (''awaiting_dml_input_method_'' @ lower (action_verb_of ca)),
             dml_form_inputs := [], dml_text_details := []\<rparr>"
    and "outcome (script_run co db s u) = Rerun"
    and "db_after (script_run co db s u) = db"
proof -
  have st: "dml_stages u s = details_stage u ca s"
    using assms(1,2) by (rule dml_stages_details)
  obtain s1 ns out where d: "details_stage u ca s = (s1, ns, out)"
    by (cases "details_stage u ca s")
  have s1: "s1 = s\<lparr>current_action := Some (''awaiting_dml_input_method_'' @ lower (action_verb_of ca)),
             dml_form_inputs := [], dml_text_details := []\<rparr>"
    using details_stage_go_back [OF assms(3,4,5,6)] d by simp
  have out: "out = Some Rerun"
    using details_stage_go_back [OF assms(3,4,5,6)] d by simp
  show "session (script_run co db s u) =
           s\<lparr>current_action := Some (''awaiting_dml_input_method_'' @ lower (action_verb_of ca)),
             dml_form_inputs := [], dml_text_details := []\<rparr>"
    by (simp add: script_run_def st d s1 out assms(5))
  show "outcome (script_run co db s u) = Rerun"
    by (simp add: script_run_def st d out assms(5))
  show "db_after (script_run co db s u) = db"
    by (simp add: script_run_def st d out assms(5))
qed

lemma script_run_submit_form_empty:
  assumes "current_action s = Some ca"
    "ca = ''awaiting_structured_dml_details_add'' \<or> ca = ''awaiting_structured_dml_details_delete''"
    "dml_guidance_message s = Some g" "dict_truthy g" "event u = SubmitForm"
    "dml_input_method s = Some ''form''" "suggested_fields g = Present fs" "fs \<noteq> []"
    "distinct (map (widget_key (action_verb_of ca)) fs)"
    "\<forall>f\<in>set fs. text_input u f = []"
  shows "script_run co db s u =
           \<lparr>session = s\<lparr>dml_form_inputs :=
                           fst (form_inputs_loop u (action_verb_of ca) [] fs (dml_form_inputs s))\<rparr>,
            db_after = db,
            notices = [Warning ''Please fill in at least one field in the form.''],
            outcome = Finished\<rparr>"
proof -
  let ?loop = "form_inputs_loop u (action_verb_of ca) [] fs (dml_form_inputs s)"
  have st: "dml_stages u s = details_stage u ca s"
    using assms(1,2) by (rule dml_stages_details)
  have loop: "snd ?loop"
    using assms(9) by (simp add: form_inputs_loop_completes)
  then have pair: "?loop = (fst ?loop, True)"
    by (cases ?loop) simp
  have nf: "\<not> any_filled (fst ?loop) fs"
    using loop assms(10) by (rule any_filled_empty)
  have pa: "process_actions co db (s\<lparr>dml_form_inputs := fst ?loop\<rparr>) =
              (s\<lparr>dml_form_inputs := fst ?loop\<rparr>, db, [], Finished)"
    by (rule process_actions_details [where ca = ca]) (simp_all add: assms)
  have d: "details_stage u ca s =
             (s\<lparr>dml_form_inputs := fst ?loop\<rparr>,
              [Warning ''Please fill in at least one field in the form.''], None)"
    using details_form_rendered [OF assms(7,8,9)]
    by (simp add: details_stage_def assms(3,4,5,6) Let_def nf go_back_button_other)
  show ?thesis
    by (simp add: script_run_def st d pa assms(5) chat_input_other_event)
qed

lemma script_run_generate_text_empty:
  assumes "current_action s = Some ca"
    "ca = ''awaiting_structured_dml_details_add'' \<or> ca = ''awaiting_structured_dml_details_delete''"
    "dml_guidance_message s = Some g" "dict_truthy g" "event u = ClickGenerateFromText"
    "dml_input_method s = Some ''text''" "strip (text_area u) = []"
  shows "script_run co db s u =
           \<lparr>session = s\<lparr>dml_text_details := text_area u\<rparr>, db_after = db,
            notices = [Warning ''Please provide the structured details in text.''],
            outcome = Finished\<rparr>"
proof -
  have st: "dml_stages u s = details_stage u ca s"
    using assms(1,2) by (rule dml_stages_details)
  have pa: "process_actions co db (s\<lparr>dml_text_details := text_area u\<rparr>) =
              (s\<lparr>dml_text_details := text_area u\<rparr>, db, [], Finished)"
    by (rule process_actions_details [where ca = ca]) (simp_all add: assms)
  have d: "details_stage u ca s =
             (s\<lparr>dml_text_details := text_area u\<rparr>,
              [Warning ''Please provide the structured details in text.''], None)"
    by (simp add: details_stage_def details_text_def assms(3,4,5,6,7) Let_def go_back_button_other)
  show ?thesis
    by (simp add: script_run_def st d pa assms(5) chat_input_other_event)
qed


text \<open>The run that generates the statement.\<close>

lemma confirmation_stage_no_event:
  "event u = NoEvent \<Longrightarrow> confirmation_stage u p s = (s, [], None)"
  by (simp add: confirmation_stage_def Let_def)

lemma dml_stages_generation:
  assumes "current_action s = Some ca"
    "ca = ''process_structured_dml_add'' \<or> ca = ''process_structured_dml_delete''"
    "event u = NoEvent"
  shows "dml_stages u s = (s, [], None)"
  using assms(2)
  by (elim disjE)
     (simp_all add: dml_stages_def assms(1,3) confirmation_stage_no_event split: option.split)

lemma process_actions_generation:
  assumes "current_action s = Some ca"
    "ca = ''process_structured_dml_add'' \<or> ca = ''process_structured_dml_delete''"
  shows "process_actions co db s = process_structured_dml co db ca s"
  using assms(2) by (elim disjE) (simp_all add: process_actions_def assms(1))

lemma script_run_generation:
  assumes "current_action s = Some ca"
    "ca = ''process_structured_dml_add'' \<or> ca = ''process_structured_dml_delete''"
    "event u = NoEvent"
  shows "session (script_run co db s u) = fst (process_structured_dml co db ca s)"
    and "outcome (script_run co db s u) = snd (snd (snd (process_structured_dml co db ca s)))"
  by (simp_all add: script_run_def dml_stages_generation [OF assms]
      process_actions_generation [OF assms(1,2)] assms(3) chat_input_other_event
      split: prod.split)

lemma process_structured_dml_result:
  assumes "dml_input_method s = Some ''form'' \<or> dml_input_method s = Some ''text''"
    "dml_generation_chain co (upper v) (action_description v)
       (if dml_input_method s = Some ''form'' then structured_details (dml_form_inputs s)
        else dml_text_details s)
       (fst (get_schema db)) = Inr generated"
    "v = (if contains ca ''add'' then ''add'' else ''delete'')"
  shows "process_structured_dml co db ca s =
           (if startswith generated ''Error generating DML:''
            then (s\<lparr>messages := messages s @ [assistant_says (points generated)],
                    current_action := None\<rparr>,
                  snd (get_schema db), [], Rerun)
            else (s\<lparr>pending_dml_confirmation := Some \<lparr>action = v, sql = generated\<rparr>\<rparr>,
                  snd (get_schema db), [], Rerun))"
proof -
  obtain schema db' where g: "get_schema db = (schema, db')"
    by (cases "get_schema db")
  have m: "\<not> (dml_input_method s \<noteq> Some ''form'' \<and> dml_input_method s \<noteq> Some ''text'')"
    using assms(1) by auto
  show ?thesis
    using assms(2) m
    by (simp add: process_structured_dml_def Let_def g assms(3) del: not_None_eq)
qed

section \<open>Concrete runs of the Add flow\<close>

lemma add_flow_sessions:
  "fst (runs None initial_session (take 5 (add_flow insert_statement))) = method_session"
  "fst (runs None initial_session (take 7 (add_flow insert_statement))) = details_session ''text''"
  "fst (runs None initial_session (take 8 (add_flow insert_statement))) = generation_session"
  by code_simp+

lemma add_flow_outcomes:
  "snd (snd (runs None initial_session (add_flow insert_statement))) =
     [Rerun, Finished, Rerun, Rerun, Finished, Rerun, Finished, Rerun, Rerun]"
  by code_simp

lemma form_disabled_permitted: "form_disabled g = (\<not> form_permitted g)"
  by (auto simp add: form_disabled_def form_permitted_def get_target_table_def fields_truthy_def
      split: entry.splits)

lemma parse_demo:
  "SimpleStrParser_parse refusal = refusal"
  "SimpleStrParser_parse insert_statement = insert_statement"
  "SimpleStrParser_parse ''SELECT 1'' = ''SELECT 1''"
  by code_simp+

section \<open>Choosing the input method\<close>

lemma stage_of_input_method:
  "current_action s = Some ca \<Longrightarrow>
   ca = ''awaiting_dml_input_method_add'' \<or> ca = ''awaiting_dml_input_method_delete'' \<Longrightarrow>
   stage_of s = AwaitingInputMethod"
  by (auto simp add: stage_of_def)

lemma stage_of_details:
  "current_action s = Some ca \<Longrightarrow>
   ca = ''awaiting_structured_dml_details_add'' \<or> ca = ''awaiting_structured_dml_details_delete'' \<Longrightarrow>
   stage_of s = AwaitingDetails"
  by (auto simp add: stage_of_def)

lemma stage_of_details_iff:
  "(stage_of s = AwaitingDetails) =
     (current_action s \<in> {Some ''awaiting_structured_dml_details_add'',
                           Some ''awaiting_structured_dml_details_delete''})"
  by (auto simp add: stage_of_def)

lemma details_name:
  "ca = ''awaiting_dml_input_method_add'' \<or> ca = ''awaiting_dml_input_method_delete'' \<Longrightarrow>
   ''awaiting_structured_dml_details_'' @ lower (action_verb_of ca) =
     ''awaiting_structured_dml_details_add'' \<or>
   ''awaiting_structured_dml_details_'' @ lower (action_verb_of ca) =
     ''awaiting_structured_dml_details_delete''"
  by (simp add: lower_verb)

lemma method_name:
  "ca = ''awaiting_structured_dml_details_add'' \<or> ca = ''awaiting_structured_dml_details_delete'' \<Longrightarrow>
   ''awaiting_dml_input_method_'' @ lower (action_verb_of ca) = ''awaiting_dml_input_method_add'' \<or>
   ''awaiting_dml_input_method_'' @ lower (action_verb_of ca) = ''awaiting_dml_input_method_delete''"
  by (simp add: lower_verb)

lemma form_reachable_permitted:
  assumes "reachable db0 s'" "stage_of s' = AwaitingDetails" "dml_input_method s' = Some ''form''"
  shows "\<exists>g'. dml_guidance_message s' = Some g' \<and> form_permitted g'"
proof -
  have "form_ok s'"
    using inv_reachable [OF assms(1)] by (simp add: session_inv_def)
  then have "form_ready (dml_guidance_message s')"
    using assms(2,3) by (auto simp add: form_ok_def stage_of_details_iff)
  then show ?thesis
    by (cases "dml_guidance_message s'") (simp_all add: form_ready_def form_disabled_permitted)
qed

lemma script_run_no_guidance:
  assumes "current_action s = Some ca"
    "ca = ''awaiting_dml_input_method_add'' \<or> ca = ''awaiting_dml_input_method_delete''"
    "\<not> guidance_truthy (dml_guidance_message s)"
    "event u = ClickFillForm \<or> event u = ClickDescribeText \<or> event u = ClickCancelOperation \<or>
     event u = NoEvent"
  shows "script_run co db s u =
           \<lparr>session = s\<lparr>current_action := None\<rparr>, db_after = db,
            notices = [Error ''Guidance message not found. Please start the DML action again.''],
            outcome = Finished\<rparr>"
proof -
  have st: "dml_stages u s = input_method_stage u ca s"
    using assms(1,2) by (rule dml_stages_input_method)
  have im: "input_method_stage u ca s =
              (s\<lparr>current_action := None\<rparr>,
               [Error ''Guidance message not found. Please start the DML action again.''], None)"
    using assms(3)
    by (cases "dml_guidance_message s") (simp_all add: input_method_stage_def guidance_truthy_def)
  have ci: "chat_input u (s\<lparr>current_action := None\<rparr>) = (s\<lparr>current_action := None\<rparr>, None)"
    using assms(4) by (auto intro: chat_input_other_event)
  have pa: "process_actions co db (s\<lparr>current_action := None\<rparr>) =
              (s\<lparr>current_action := None\<rparr>, db, [], Finished)"
    by (rule process_actions_idle) simp
  show ?thesis
    using assms(4) by (auto simp add: script_run_def st im ci pa)
qed

text \<open>
  C7, as amended. In the input-method stage, under a guidance that is not empty, the
  Fill Form button takes the session to the details stage with the form method only if
  the guidance's target table is not "Unknown" and its suggested fields are not empty;
  otherwise the button is disabled and the run changes nothing. Under such a guidance
  the Describe in Text button always takes the session to the details stage with the
  text method. When the guidance is missing or empty, the stage shows neither button:
  the run reports the missing guidance and resets the current action, whatever was
  clicked. No reachable session is in the details stage with the form method under a
  guidance whose target table is "Unknown".
\<close>

theorem input_method_choice_amended:
  assumes "current_action s = Some ca"
    "ca = ''awaiting_dml_input_method_add'' \<or> ca = ''awaiting_dml_input_method_delete''"
  shows
    "(dml_guidance_message s = Some g \<and> dict_truthy g \<and> event u = ClickFillForm \<longrightarrow>
        (if form_permitted g
         then session (script_run co db s u) =
                s\<lparr>dml_input_method := Some ''form'',
                  current_action :=
                    Some (''awaiting_structured_dml_details_'' @ lower (action_verb_of ca))\<rparr> \<and>
              stage_of (session (script_run co db s u)) = AwaitingDetails \<and>
              outcome (script_run co db s u) = Rerun
         else session (script_run co db s u) = s \<and>
              outcome (script_run co db s u) = Finished)) \<and>
     (dml_guidance_message s = Some g \<and> dict_truthy g \<and> event u = ClickDescribeText \<longrightarrow>
        session (script_run co db s u) =
          s\<lparr>dml_input_method := Some ''text'',
            current_action :=
              Some (''awaiting_structured_dml_details_'' @ lower (action_verb_of ca))\<rparr> \<and>
        stage_of (session (script_run co db s u)) = AwaitingDetails \<and>
        outcome (script_run co db s u) = Rerun) \<and>
     (\<not> guidance_truthy (dml_guidance_message s) \<and>
      (event u = ClickFillForm \<or> event u = ClickDescribeText) \<longrightarrow>
        script_run co db s u =
          \<lparr>session = s\<lparr>current_action := None\<rparr>, db_after = db,
           notices = [Error ''Guidance message not found. Please start the DML action again.''],
           outcome = Finished\<rparr>) \<and>
     (\<forall>s'. reachable db0 s' \<and> stage_of s' = AwaitingDetails \<and>
           dml_input_method s' = Some ''form'' \<longrightarrow>
           (\<exists>g'. dml_guidance_message s' = Some g' \<and> form_permitted g'))"
proof -
  have form_case: "if form_permitted g
         then session (script_run co db s u) =
                s\<lparr>dml_input_method := Some ''form'',
                  current_action :=
                    Some (''awaiting_structured_dml_details_'' @ lower (action_verb_of ca))\<rparr> \<and>
              stage_of (session (script_run co db s u)) = AwaitingDetails \<and>
              outcome (script_run co db s u) = Rerun
         else session (script_run co db s u) = s \<and>
              outcome (script_run co db s u) = Finished"
    if h: "dml_guidance_message s = Some g \<and> dict_truthy g \<and> event u = ClickFillForm"
  proof -
    have st: "stage_of (s\<lparr>dml_input_method := Some ''form'',
                  current_action :=
                    Some (''awaiting_structured_dml_details_'' @ lower (action_verb_of ca))\<rparr>) =
            AwaitingDetails"
      using details_name [OF assms(2)] by (auto intro: stage_of_details)
    have r: "script_run co db s u =
           (if form_disabled g
            then \<lparr>session = s, db_after = db, notices = [], outcome = Finished\<rparr>
            else \<lparr>session = s\<lparr>dml_input_method := Some ''form'',
                               current_action := Some (''awaiting_structured_dml_details_'' @ lower (action_verb_of ca))\<rparr>,
                  db_after = db, notices = [], outcome = Rerun\<rparr>)"
      using h script_run_fill_form [OF assms, of g u co db] by simp
    show ?thesis
      using st by (simp add: r form_disabled_permitted)
  qed
  have text_case: "session (script_run co db s u) =
          s\<lparr>dml_input_method := Some ''text'',
            current_action :=
              Some (''awaiting_structured_dml_details_'' @ lower (action_verb_of ca))\<rparr> \<and>
        stage_of (session (script_run co db s u)) = AwaitingDetails \<and>
        outcome (script_run co db s u) = Rerun"
    if h: "dml_guidance_message s = Some g \<and> dict_truthy g \<and> event u = ClickDescribeText"
  proof -
    have st: "stage_of (s\<lparr>dml_input_method := Some ''text'',
                  current_action :=
                    Some (''awaiting_structured_dml_details_'' @ lower (action_verb_of ca))\<rparr>) =
            AwaitingDetails"
      using details_name [OF assms(2)] by (auto intro: stage_of_details)
    have r: "script_run co db s u =
           \<lparr>session = s\<lparr>dml_input_method := Some ''text'',
                               current_action := Some (''awaiting_structured_dml_details_'' @ lower (action_verb_of ca))\<rparr>,
                  db_after = db, notices = [], outcome = Rerun\<rparr>"
      using h script_run_describe_text [OF assms, of g u co db] by simp
    show ?thesis
      using st by (simp add: r)
  qed
  have no_guidance: "script_run co db s u =
          \<lparr>session = s\<lparr>current_action := None\<rparr>, db_after = db,
           notices = [Error ''Guidance message not found. Please start the DML action again.''],
           outcome = Finished\<rparr>"
    if h: "\<not> guidance_truthy (dml_guidance_message s) \<and>
      (event u = ClickFillForm \<or> event u = ClickDescribeText)"
    using h script_run_no_guidance [OF assms, of u co db] by blast
  have never: "\<exists>g'. dml_guidance_message s' = Some g' \<and> form_permitted g'"
    if "reachable db0 s' \<and> stage_of s' = AwaitingDetails \<and> dml_input_method s' = Some ''form''"
    for s'
    using that form_reachable_permitted by blast
  show ?thesis
    using form_case text_case no_guidance never by blast
qed

text \<open>
  C7 as stated fails: when the model answers the guidance prompt with an empty JSON
  object, the session enters the input-method stage with that guidance, and a click on
  Describe in Text there selects no input method and leaves the DML flow.
\<close>

theorem input_method_counterexample:
  "fst (runs None initial_session (guidance_flow (Some empty_guidance))) =
     unguided_session (Some empty_guidance) \<and>
   stage_of (unguided_session (Some empty_guidance)) = AwaitingInputMethod \<and>
   dml_input_method
     (session (script_run (guidance_collaborators (Some empty_guidance)) None
        (unguided_session (Some empty_guidance)) (user ClickDescribeText []))) = None \<and>
   stage_of
     (session (script_run (guidance_collaborators (Some empty_guidance)) None
        (unguided_session (Some empty_guidance)) (user ClickDescribeText []))) = NoStage"
  by code_simp

theorem input_method_choice_amended_witness:
  "form_permitted demo_guidance \<and>
   dml_input_method (session (script_run (demo_collaborators insert_statement) None
     method_session (user ClickFillForm []))) = Some ''form'' \<and>
   \<not> form_permitted vague_guidance \<and>
   session (script_run (demo_collaborators insert_statement) None vague_session
     (user ClickFillForm [])) = vague_session \<and>
   dml_input_method (session (script_run (demo_collaborators insert_statement) None
     vague_session (user ClickDescribeText []))) = Some ''text'' \<and>
   form_permitted null_table_guidance \<and>
   dml_input_method (session (script_run (demo_collaborators insert_statement) None
     (unguided_session (Some null_table_guidance)) (user ClickFillForm []))) = Some ''form'' \<and>
   \<not> guidance_truthy None \<and>
   current_action (session (script_run (demo_collaborators insert_statement) None
     (unguided_session None) (user ClickDescribeText []))) = None \<and>
   dml_input_method (session (script_run (demo_collaborators insert_statement) None
     (unguided_session None) (user ClickDescribeText []))) = None"
proof -
  have p: "form_permitted demo_guidance" "\<not> form_permitted vague_guidance"
    "form_permitted null_table_guidance"
    by (simp_all add: form_permitted_def demo_guidance_def vague_guidance_def
        null_table_guidance_def)
  have t: "dict_truthy demo_guidance" "dict_truthy vague_guidance"
    "dict_truthy null_table_guidance" "\<not> guidance_truthy None"
    by (simp_all add: dict_truthy_def guidance_truthy_def demo_guidance_def vague_guidance_def
        null_table_guidance_def)
  have a: "current_action method_session = Some ''awaiting_dml_input_method_add''"
    "dml_guidance_message method_session = Some demo_guidance"
    "current_action vague_session = Some ''awaiting_dml_input_method_add''"
    "dml_guidance_message vague_session = Some vague_guidance"
    "current_action (unguided_session answer) = Some ''awaiting_dml_input_method_add''"
    "dml_guidance_message (unguided_session answer) = answer"
    "dml_input_method (unguided_session answer) = None" for answer
    by (simp_all add: method_session_def vague_session_def unguided_session_def
        initial_session_def)
  have e: "event (user ClickFillForm []) = ClickFillForm"
    "event (user ClickDescribeText []) = ClickDescribeText"
    by (simp_all add: user_def)
  show ?thesis
    using p t e
      input_method_choice_amended [OF a(1), where g = demo_guidance
        and u = "user ClickFillForm []" and co = "demo_collaborators insert_statement"
        and db = None]
      input_method_choice_amended [OF a(3), where g = vague_guidance
        and u = "user ClickFillForm []" and co = "demo_collaborators insert_statement"
        and db = None]
      input_method_choice_amended [OF a(3), where g = vague_guidance
        and u = "user ClickDescribeText []" and co = "demo_collaborators insert_statement"
        and db = None]
      input_method_choice_amended [OF a(5), where answer1 = "Some null_table_guidance"
        and g = null_table_guidance
        and u = "user ClickFillForm []" and co = "demo_collaborators insert_statement"
        and db = None]
      input_method_choice_amended [OF a(5), where answer1 = None
        and u = "user ClickDescribeText []" and co = "demo_collaborators insert_statement"
        and db = None]
    by (simp add: a)
qed

section \<open>Going back and generating the statement\<close>

text \<open>
  C9. The Go Back button of the details stage, in the form or the text method, returns
  the session to the input-method stage: the guidance is left as it is, the form
  values and the free-text details are cleared. (The form has been rendered, so its
  widget keys are distinct.)
\<close>

theorem go_back_keeps_guidance:
  assumes "current_action s = Some ca"
    "ca = ''awaiting_structured_dml_details_add'' \<or> ca = ''awaiting_structured_dml_details_delete''"
    "dml_guidance_message s = Some g" "dict_truthy g" "event u = ClickGoBack"
    "dml_input_method s = Some ''form'' \<longrightarrow>
       distinct (map (widget_key (action_verb_of ca)) (get_suggested_fields g))"
  shows "session (script_run co db s u) =
           s\<lparr>current_action := Some (''awaiting_dml_input_method_'' @ lower (action_verb_of ca)),
             dml_form_inputs := [], dml_text_details := []\<rparr> \<and>
         stage_of (session (script_run co db s u)) = AwaitingInputMethod \<and>
         dml_guidance_message (session (script_run co db s u)) = dml_guidance_message s \<and>
         dml_form_inputs (session (script_run co db s u)) = [] \<and>
         dml_text_details (session (script_run co db s u)) = [] \<and>
         outcome (script_run co db s u) = Rerun"
proof -
  have st: "stage_of (s\<lparr>current_action := Some (''awaiting_dml_input_method_'' @ lower (action_verb_of ca)),
             dml_form_inputs := [], dml_text_details := []\<rparr>) = AwaitingInputMethod"
    using method_name [OF assms(2)] by (auto intro: stage_of_input_method)
  show ?thesis
    using st by (simp add: script_run_go_back [OF assms])
qed

theorem go_back_keeps_guidance_witness:
  "dml_guidance_message (session (script_run (demo_collaborators insert_statement) None
     filled_session (form_ui ClickGoBack ''Other Band''))) = Some demo_guidance \<and>
   dml_form_inputs (session (script_run (demo_collaborators insert_statement) None
     filled_session (form_ui ClickGoBack ''Other Band''))) = [] \<and>
   current_action (session (script_run (demo_collaborators insert_statement) None
     filled_session (form_ui ClickGoBack ''Other Band''))) =
     Some ''awaiting_dml_input_method_add''"
proof -
  have a: "current_action filled_session = Some ''awaiting_structured_dml_details_add''"
    "dml_guidance_message filled_session = Some demo_guidance"
    by (simp_all add: filled_session_def details_session_def method_session_def)
  have t: "dict_truthy demo_guidance"
    by (simp add: dict_truthy_def demo_guidance_def)
  have e: "event (form_ui ClickGoBack ''Other Band'') = ClickGoBack"
    by (simp add: form_ui_def)
  have d: "dml_input_method filled_session = Some ''form'' \<longrightarrow>
       distinct (map (widget_key (action_verb_of ''awaiting_structured_dml_details_add''))
                  (get_suggested_fields demo_guidance))"
    by (simp add: demo_guidance_def get_suggested_fields_def)
  show ?thesis
    using go_back_keeps_guidance [OF a(1) _ a(2) t e d, of "demo_collaborators insert_statement" None]
    by (simp add: a verb_simps lower_Add)
qed

text \<open>
  The run that generates the statement, in a session without a pending confirmation,
  for every text the DML generation chain returns: if the text starts with "Error
  generating DML:", it is appended as an assistant message, the current action is reset
  and no confirmation is pending, so that the script shows no stage; otherwise the
  pending confirmation becomes the action verb with this text and the script shows the
  confirmation stage, with the current action left as it is.
\<close>

lemma dml_generation_step:
  assumes "current_action s = Some (''process_structured_dml_'' @ v)"
    "v = ''add'' \<or> v = ''delete''"
    "event u = NoEvent"
    "dml_input_method s = Some ''form'' \<or> dml_input_method s = Some ''text''"
    "dml_request co db v s = Inr generated"
  shows "(startswith generated ''Error generating DML:'' \<longrightarrow>
            session (script_run co db s u) =
              s\<lparr>messages := messages s @
                   [\<lparr>role = Assistant,
                     content = Reply
                       \<lparr>ai_response = Some (map of_char generated),
                        generated_sql_display = None, sql_query_result_display = None,
                        error = None\<rparr>\<rparr>],
                current_action := None\<rparr> \<and>
            (pending_dml_confirmation s = None \<longrightarrow>
               stage_of (session (script_run co db s u)) = NoStage)) \<and>
         (\<not> startswith generated ''Error generating DML:'' \<longrightarrow>
            session (script_run co db s u) =
              s\<lparr>pending_dml_confirmation := Some \<lparr>action = v, sql = generated\<rparr>\<rparr> \<and>
            stage_of (session (script_run co db s u)) = PendingConfirmation)"
proof -
  let ?ca = "''process_structured_dml_'' @ v"
  have ca: "?ca = ''process_structured_dml_add'' \<or> ?ca = ''process_structured_dml_delete''"
    using assms(2) by auto
  have v: "v = (if contains ?ca ''add'' then ''add'' else ''delete'')"
    using assms(2) by auto
  have req: "dml_generation_chain co (upper v) (action_description v)
       (if dml_input_method s = Some ''form'' then structured_details (dml_form_inputs s)
        else dml_text_details s)
       (fst (get_schema db)) = Inr generated"
    using assms(5) by (simp add: dml_request_def)
  have r: "session (script_run co db s u) = fst (process_structured_dml co db ?ca s)"
    using assms(1) ca assms(3) by (rule script_run_generation(1))
  have p: "process_structured_dml co db ?ca s =
           (if startswith generated ''Error generating DML:''
            then (s\<lparr>messages := messages s @ [assistant_says (points generated)],
                    current_action := None\<rparr>,
                  snd (get_schema db), [], Rerun)
            else (s\<lparr>pending_dml_confirmation := Some \<lparr>action = v, sql = generated\<rparr>\<rparr>,
                  snd (get_schema db), [], Rerun))"
    using assms(4) req v by (rule process_structured_dml_result)
  have st: "stage_of (s\<lparr>pending_dml_confirmation := Some \<lparr>action = v, sql = generated\<rparr>\<rparr>) =
              PendingConfirmation"
    using assms(2) by (auto simp add: stage_of_def assms(1))
  have rs: "session (script_run co db s u) =
           (if startswith generated ''Error generating DML:''
            then s\<lparr>messages := messages s @ [assistant_says (points generated)],
                   current_action := None\<rparr>
            else s\<lparr>pending_dml_confirmation := Some \<lparr>action = v, sql = generated\<rparr>\<rparr>)"
    unfolding r p by simp
  show ?thesis
  proof (cases "startswith generated ''Error generating DML:''")
    case True
    then show ?thesis
      by (simp add: rs stage_of_def assistant_says_def empty_content_def points_def)
  next
    case False
    then show ?thesis
      using st by (simp add: rs)
  qed
qed

text \<open>
  C4 does not hold of the code. The generating run leaves the current action set
  ("current_action will be reset by the confirmation UI logic"), so the rerun it
  requests enters the handler again while the confirmation is pending. When the model
  refuses this time, the refusal is appended as an assistant message and the current
  action is reset, but the statement generated before stays pending and the script
  shows the confirmation stage: the session is not idle.
\<close>

theorem refusal_keeps_confirmation:
  "stage_of (fst (runs None initial_session (add_flow insert_statement))) = PendingConfirmation \<and>
   current_action (fst (runs None initial_session (add_flow insert_statement))) =
     Some ''process_structured_dml_add'' \<and>
   startswith refusal ''Error generating DML:'' \<and>
   last (messages (fst (runs None initial_session refusal_after_generation))) =
     \<lparr>role = Assistant,
      content = Reply
        \<lparr>ai_response = Some (map of_char refusal), generated_sql_display = None,
         sql_query_result_display = None, error = None\<rparr>\<rparr> \<and>
   current_action (fst (runs None initial_session refusal_after_generation)) = None \<and>
   pending_dml_confirmation (fst (runs None initial_session refusal_after_generation)) =
     Some \<lparr>action = ''add'', sql = insert_statement\<rparr> \<and>
   stage_of (fst (runs None initial_session refusal_after_generation)) = PendingConfirmation"
  by code_simp

section \<open>Cancelling\<close>

lemma add_flow_ends:
  "fst (runs None initial_session (take 2 (add_flow insert_statement))) = initial_input_session"
  "fst (runs None initial_session (add_flow insert_statement)) = confirmation_session insert_statement"
  "fst (runs None initial_session (add_flow ''SELECT 1'')) = confirmation_session ''SELECT 1''"
  by code_simp+

lemma reachable_runs: "reachable db0 (fst (runs db0 initial_session trace))"
  by (auto simp add: reachable_def)

lemma stage_of_initial_iff:
  "(stage_of s = InitialInput) =
     (current_action s \<in> {Some ''add_data_initial_input'', Some ''delete_data_initial_input''})"
  by (auto simp add: stage_of_def)

lemma stage_of_method_iff:
  "(stage_of s = AwaitingInputMethod) =
     (current_action s \<in> {Some ''awaiting_dml_input_method_add'',
                           Some ''awaiting_dml_input_method_delete''})"
  by (auto simp add: stage_of_def)

lemma cancel_initial:
  assumes "reachable db0 s" "stage_of s = InitialInput" "event u = ClickCancel"
  shows "session (script_run co db s u) =
           s\<lparr>dml_initial_description := text_area u, current_action := None\<rparr> \<and>
         dml_guidance_message (session (script_run co db s u)) = None \<and>
         outcome (script_run co db s u) = Rerun"
proof -
  obtain ca where ca: "current_action s = Some ca"
    "ca = ''add_data_initial_input'' \<or> ca = ''delete_data_initial_input''"
    using assms(2) by (auto simp add: stage_of_initial_iff)
  have "initial_ok s"
    using inv_reachable [OF assms(1)] by (simp add: session_inv_def)
  then have g: "dml_guidance_message s = None"
    using ca by (auto simp add: initial_ok_def)
  show ?thesis
    by (simp add: script_run_cancel [OF ca assms(3)] g)
qed

lemma cancel_method:
  assumes "stage_of s = AwaitingInputMethod" "guidance_truthy (dml_guidance_message s)"
    "event u = ClickCancelOperation"
  shows "session (script_run co db s u) = s\<lparr>current_action := None, dml_guidance_message := None\<rparr> \<and>
         outcome (script_run co db s u) = Rerun"
proof -
  obtain ca where ca: "current_action s = Some ca"
    "ca = ''awaiting_dml_input_method_add'' \<or> ca = ''awaiting_dml_input_method_delete''"
    using assms(1) by (auto simp add: stage_of_method_iff)
  obtain g where g: "dml_guidance_message s = Some g" "dict_truthy g"
    using assms(2) by (cases "dml_guidance_message s") (simp_all add: guidance_truthy_def)
  show ?thesis
    by (simp add: script_run_cancel_operation [OF ca g assms(3)])
qed

lemma cancel_confirmation:
  assumes "stage_of s = PendingConfirmation" "pending_dml_confirmation s = Some p"
    "event u = ClickCancelConfirmation"
  shows "session (script_run co db s u) =
           s\<lparr>messages := messages s @
                [assistant_says (capitalize (action p) @ points '' operation cancelled.'')],
             pending_dml_confirmation := None, current_action := None\<rparr> \<and>
         outcome (script_run co db s u) = Rerun"
  using assms
  by (simp add: script_run_confirmation confirmation_stage_def)

lemma stage_of_idle:
  "current_action s = None \<Longrightarrow> pending_dml_confirmation s = None \<Longrightarrow> stage_of s = NoStage"
  by (simp add: stage_of_def)

lemma cancel_early:
  assumes "reachable db0 s"
    "stage_of s = InitialInput \<and> event u = ClickCancel \<or>
     stage_of s = AwaitingInputMethod \<and> guidance_truthy (dml_guidance_message s) \<and>
     event u = ClickCancelOperation"
  shows "current_action (session (script_run co db s u)) = None \<and>
         dml_guidance_message (session (script_run co db s u)) = None \<and>
         messages (session (script_run co db s u)) = messages s \<and>
         pending_dml_confirmation (session (script_run co db s u)) = pending_dml_confirmation s \<and>
         outcome (script_run co db s u) = Rerun \<and>
         session (script_run co' db' s u) = session (script_run co db s u)"
  using assms(2)
proof
  assume a: "stage_of s = InitialInput \<and> event u = ClickCancel"
  then have st: "stage_of s = InitialInput" and e: "event u = ClickCancel" by simp_all
  note r = cancel_initial [OF assms(1) st e]
  show ?thesis
    using r [of co db] r [of co' db'] by (elim conjE) simp
next
  assume a: "stage_of s = AwaitingInputMethod \<and> guidance_truthy (dml_guidance_message s) \<and>
     event u = ClickCancelOperation"
  then have st: "stage_of s = AwaitingInputMethod"
    and g: "guidance_truthy (dml_guidance_message s)"
    and e: "event u = ClickCancelOperation" by simp_all
  note r = cancel_method [OF st g e]
  show ?thesis
    using r [of co db] r [of co' db'] by (elim conjE) simp
qed

text \<open>
  C5, as amended. In every reachable session, cancelling sets the current action to
  none and asks for a rerun, and the session it leaves does not depend on the
  collaborators or the database. The Cancel button of the initial-description stage and
  the Cancel Operation button of the input-method stage leave no guidance and append no
  message; when no confirmation is pending, the script then shows no stage. The Cancel
  Operation button of the confirmation stage clears the pending confirmation, so that
  the script shows no stage, and appends the message "Add operation cancelled." or
  "Delete operation cancelled."; it leaves the guidance as it is.
\<close>

theorem cancel_amended:
  assumes "reachable db0 s"
  shows
    "(stage_of s = InitialInput \<and> event u = ClickCancel \<or>
      stage_of s = AwaitingInputMethod \<and> guidance_truthy (dml_guidance_message s) \<and>
      event u = ClickCancelOperation \<longrightarrow>
        current_action (session (script_run co db s u)) = None \<and>
        dml_guidance_message (session (script_run co db s u)) = None \<and>
        messages (session (script_run co db s u)) = messages s \<and>
        outcome (script_run co db s u) = Rerun \<and>
        session (script_run co' db' s u) = session (script_run co db s u) \<and>
        (pending_dml_confirmation s = None \<longrightarrow>
           pending_dml_confirmation (session (script_run co db s u)) = None \<and>
           stage_of (session (script_run co db s u)) = NoStage)) \<and>
     (stage_of s = PendingConfirmation \<and> pending_dml_confirmation s = Some p \<and>
      event u = ClickCancelConfirmation \<longrightarrow>
        current_action (session (script_run co db s u)) = None \<and>
        pending_dml_confirmation (session (script_run co db s u)) = None \<and>
        stage_of (session (script_run co db s u)) = NoStage \<and>
        dml_guidance_message (session (script_run co db s u)) = dml_guidance_message s \<and>
        messages (session (script_run co db s u)) =
          messages s @
          [\<lparr>role = Assistant,
            content = Reply
              \<lparr>ai_response =
                 Some (map of_char
                         (if action p = ''add'' then ''Add operation cancelled.''
                          else ''Delete operation cancelled.'')),
               generated_sql_display = None, sql_query_result_display = None,
               error = None\<rparr>\<rparr>] \<and>
        outcome (script_run co db s u) = Rerun \<and>
        session (script_run co' db' s u) = session (script_run co db s u))"
proof -
  have early: "current_action (session (script_run co db s u)) = None \<and>
        dml_guidance_message (session (script_run co db s u)) = None \<and>
        messages (session (script_run co db s u)) = messages s \<and>
        outcome (script_run co db s u) = Rerun \<and>
        session (script_run co' db' s u) = session (script_run co db s u) \<and>
        (pending_dml_confirmation s = None \<longrightarrow>
           pending_dml_confirmation (session (script_run co db s u)) = None \<and>
           stage_of (session (script_run co db s u)) = NoStage)"
    if h: "stage_of s = InitialInput \<and> event u = ClickCancel \<or>
      stage_of s = AwaitingInputMethod \<and> guidance_truthy (dml_guidance_message s) \<and>
      event u = ClickCancelOperation"
    using cancel_early [OF assms h, of co db co' db']
    by (simp add: stage_of_idle)
  have late: "current_action (session (script_run co db s u)) = None \<and>
        pending_dml_confirmation (session (script_run co db s u)) = None \<and>
        stage_of (session (script_run co db s u)) = NoStage \<and>
        dml_guidance_message (session (script_run co db s u)) = dml_guidance_message s \<and>
        messages (session (script_run co db s u)) =
          messages s @
          [\<lparr>role = Assistant,
            content = Reply
              \<lparr>ai_response =
                 Some (map of_char
                         (if action p = ''add'' then ''Add operation cancelled.''
                          else ''Delete operation cancelled.'')),
               generated_sql_display = None, sql_query_result_display = None,
               error = None\<rparr>\<rparr>] \<and>
        outcome (script_run co db s u) = Rerun \<and>
        session (script_run co' db' s u) = session (script_run co db s u)"
    if h: "stage_of s = PendingConfirmation \<and> pending_dml_confirmation s = Some p \<and>
      event u = ClickCancelConfirmation"
  proof -
    have "pending_ok s"
      using inv_reachable [OF assms] by (simp add: session_inv_def)
    then have verb: "action p = ''add'' \<or> action p = ''delete''"
      using h by (simp add: pending_ok_def)
    have m: "capitalize (action p) @ points '' operation cancelled.'' =
               map of_char (if action p = ''add'' then ''Add operation cancelled.''
                            else ''Delete operation cancelled.'')"
      using verb verb_texts by (auto simp add: points_def)
    from h have c: "stage_of s = PendingConfirmation" "pending_dml_confirmation s = Some p"
      "event u = ClickCancelConfirmation" by simp_all
    note r = cancel_confirmation [OF c, of co db] cancel_confirmation [OF c, of co' db']
    show ?thesis
      by (simp add: r m stage_of_def assistant_says_def empty_content_def)
  qed
  show ?thesis
    using early late by blast
qed

text \<open>
  C5 as stated fails: after the Add flow has generated a statement, cancelling at the
  confirmation stage leaves the guidance of the flow in the session.
\<close>

theorem cancel_counterexample:
  "stage_of (confirmation_session insert_statement) = PendingConfirmation \<and>
   dml_guidance_message
     (session (script_run (demo_collaborators insert_statement) None
        (confirmation_session insert_statement) (user ClickCancelConfirmation []))) =
     Some demo_guidance"
  by code_simp

theorem cancel_amended_witness:
  "current_action
     (session (script_run (demo_collaborators insert_statement) None
        (confirmation_session insert_statement) (user ClickCancelConfirmation []))) = None \<and>
   pending_dml_confirmation
     (session (script_run (demo_collaborators insert_statement) None
        (confirmation_session insert_statement) (user ClickCancelConfirmation []))) = None \<and>
   messages
     (session (script_run (demo_collaborators insert_statement) None
        (confirmation_session insert_statement) (user ClickCancelConfirmation []))) =
     messages (confirmation_session insert_statement) @
     [\<lparr>role = Assistant,
       content = Reply
         \<lparr>ai_response = Some (map of_char ''Add operation cancelled.''),
          generated_sql_display = None, sql_query_result_display = None, error = None\<rparr>\<rparr>] \<and>
   stage_of
     (session (script_run (demo_collaborators insert_statement) None
        initial_input_session (user ClickCancel []))) = NoStage \<and>
   dml_guidance_message
     (session (script_run (demo_collaborators insert_statement) None
        method_session (user ClickCancelOperation []))) = None \<and>
   stage_of
     (session (script_run (demo_collaborators insert_statement) None
        method_session (user ClickCancelOperation []))) = NoStage"
proof -
  have re: "reachable None (confirmation_session insert_statement)"
    "reachable None initial_input_session" "reachable None method_session"
    using reachable_runs [of None "add_flow insert_statement"]
      reachable_runs [of None "take 2 (add_flow insert_statement)"]
      reachable_runs [of None "take 5 (add_flow insert_statement)"]
    by (simp_all add: add_flow_ends add_flow_sessions)
  have st: "stage_of (confirmation_session insert_statement) = PendingConfirmation"
    "stage_of initial_input_session = InitialInput"
    "stage_of method_session = AwaitingInputMethod"
    by code_simp+
  have p: "pending_dml_confirmation (confirmation_session insert_statement) =
             Some \<lparr>action = ''add'', sql = insert_statement\<rparr>"
    "pending_dml_confirmation initial_input_session = None"
    "pending_dml_confirmation method_session = None"
    "guidance_truthy (dml_guidance_message method_session)"
    by (simp_all add: confirmation_session_def generation_session_def details_session_def
        method_session_def initial_input_session_def initial_session_def guidance_truthy_def
        dict_truthy_def demo_guidance_def)
  have e: "event (user ClickCancelConfirmation []) = ClickCancelConfirmation"
    "event (user ClickCancel []) = ClickCancel"
    "event (user ClickCancelOperation []) = ClickCancelOperation"
    by (simp_all add: user_def)
  show ?thesis
    using cancel_amended [OF re(1), of "user ClickCancelConfirmation []"
        "demo_collaborators insert_statement" None "demo_collaborators insert_statement" None
        "\<lparr>action = ''add'', sql = insert_statement\<rparr>"]
      cancel_amended [OF re(2), of "user ClickCancel []"
        "demo_collaborators insert_statement" None "demo_collaborators insert_statement" None]
      cancel_amended [OF re(3), of "user ClickCancelOperation []"
        "demo_collaborators insert_statement" None "demo_collaborators insert_statement" None]
      st p e
    by simp
qed

section \<open>Empty submissions\<close>

text \<open>
  C8, as amended. A Get Guidance click with a blank description, a form submission
  with every suggested field empty and a Generate click with blank free-text details
  are each rejected with a warning: the run keeps the current action, appends no
  message, makes no call to the database and ends without a rerun. The only session
  field the run writes is the one that mirrors the submitted widgets: the description,
  the form values of the suggested fields (each the empty text) or the free-text
  details.
\<close>

theorem empty_submission_amended:
  assumes "current_action s = Some ca"
  shows
    "(stage_of s = InitialInput \<and> event u = ClickGetGuidance \<and> strip (text_area u) = [] \<longrightarrow>
        script_run co db s u =
          \<lparr>session = s\<lparr>dml_initial_description := text_area u\<rparr>, db_after = db,
           notices = [Warning ''Please provide an initial description.''],
           outcome = Finished\<rparr>) \<and>
     (stage_of s = AwaitingDetails \<and> dml_guidance_message s = Some g \<and> dict_truthy g \<and>
      dml_input_method s = Some ''form'' \<and> suggested_fields g = Present fs \<and> fs \<noteq> [] \<and>
      distinct (map (widget_key (action_verb_of ca)) fs) \<and>
      event u = SubmitForm \<and> (\<forall>f\<in>set fs. text_input u f = []) \<longrightarrow>
        script_run co db s u =
          \<lparr>session = s\<lparr>dml_form_inputs :=
                          fst (form_inputs_loop u (action_verb_of ca) [] fs (dml_form_inputs s))\<rparr>,
           db_after = db,
           notices = [Warning ''Please fill in at least one field in the form.''],
           outcome = Finished\<rparr> \<and>
        (\<forall>f. dict_get (dml_form_inputs (session (script_run co db s u))) f =
              (if f \<in> set fs then Some [] else dict_get (dml_form_inputs s) f))) \<and>
     (stage_of s = AwaitingDetails \<and> dml_guidance_message s = Some g \<and> dict_truthy g \<and>
      dml_input_method s = Some ''text'' \<and>
      event u = ClickGenerateFromText \<and> strip (text_area u) = [] \<longrightarrow>
        script_run co db s u =
          \<lparr>session = s\<lparr>dml_text_details := text_area u\<rparr>, db_after = db,
           notices = [Warning ''Please provide the structured details in text.''],
           outcome = Finished\<rparr>)"
proof -
  have initial_case: "script_run co db s u =
          \<lparr>session = s\<lparr>dml_initial_description := text_area u\<rparr>, db_after = db,
           notices = [Warning ''Please provide an initial description.''],
           outcome = Finished\<rparr>"
    if h: "stage_of s = InitialInput \<and> event u = ClickGetGuidance \<and> strip (text_area u) = []"
  proof -
    have ca: "ca = ''add_data_initial_input'' \<or> ca = ''delete_data_initial_input''"
      using h assms by (auto simp add: stage_of_initial_iff)
    show ?thesis
      using h by (simp add: script_run_get_guidance [OF assms ca])
  qed
  have form_case: "script_run co db s u =
          \<lparr>session = s\<lparr>dml_form_inputs :=
                          fst (form_inputs_loop u (action_verb_of ca) [] fs (dml_form_inputs s))\<rparr>,
           db_after = db,
           notices = [Warning ''Please fill in at least one field in the form.''],
           outcome = Finished\<rparr> \<and>
        (\<forall>f. dict_get (dml_form_inputs (session (script_run co db s u))) f =
              (if f \<in> set fs then Some [] else dict_get (dml_form_inputs s) f))"
    if h: "stage_of s = AwaitingDetails \<and> dml_guidance_message s = Some g \<and> dict_truthy g \<and>
      dml_input_method s = Some ''form'' \<and> suggested_fields g = Present fs \<and> fs \<noteq> [] \<and>
      distinct (map (widget_key (action_verb_of ca)) fs) \<and>
      event u = SubmitForm \<and> (\<forall>f\<in>set fs. text_input u f = [])"
  proof -
    have ca: "ca = ''awaiting_structured_dml_details_add'' \<or>
              ca = ''awaiting_structured_dml_details_delete''"
      using h assms by (auto simp add: stage_of_details_iff)
    have r: "script_run co db s u =
          \<lparr>session = s\<lparr>dml_form_inputs :=
                          fst (form_inputs_loop u (action_verb_of ca) [] fs (dml_form_inputs s))\<rparr>,
           db_after = db,
           notices = [Warning ''Please fill in at least one field in the form.''],
           outcome = Finished\<rparr>"
    proof (rule script_run_submit_form_empty [OF assms ca])
      show "dml_guidance_message s = Some g" using h by simp
      show "dict_truthy g" using h by simp
      show "event u = SubmitForm" using h by simp
      show "dml_input_method s = Some ''form''" using h by simp
      show "suggested_fields g = Present fs" using h by simp
      show "fs \<noteq> []" using h by simp
      show "distinct (map (widget_key (action_verb_of ca)) fs)" using h by simp
      show "\<forall>f\<in>set fs. text_input u f = []" using h by simp
    qed
    have l: "snd (form_inputs_loop u (action_verb_of ca) [] fs (dml_form_inputs s))"
      using h by (simp add: form_inputs_loop_completes)
    have "\<forall>f. dict_get (fst (form_inputs_loop u (action_verb_of ca) [] fs (dml_form_inputs s))) f =
              (if f \<in> set fs then Some [] else dict_get (dml_form_inputs s) f)"
      using h by (simp add: form_inputs_loop_get [OF l])
    then show ?thesis
      by (simp add: r)
  qed
  have text_case: "script_run co db s u =
          \<lparr>session = s\<lparr>dml_text_details := text_area u\<rparr>, db_after = db,
           notices = [Warning ''Please provide the structured details in text.''],
           outcome = Finished\<rparr>"
    if h: "stage_of s = AwaitingDetails \<and> dml_guidance_message s = Some g \<and> dict_truthy g \<and>
      dml_input_method s = Some ''text'' \<and>
      event u = ClickGenerateFromText \<and> strip (text_area u) = []"
  proof -
    have ca: "ca = ''awaiting_structured_dml_details_add'' \<or>
              ca = ''awaiting_structured_dml_details_delete''"
      using h assms by (auto simp add: stage_of_details_iff)
    show ?thesis
    proof (rule script_run_generate_text_empty [OF assms ca])
      show "dml_guidance_message s = Some g" using h by simp
      show "dict_truthy g" using h by simp
      show "event u = ClickGenerateFromText" using h by simp
      show "dml_input_method s = Some ''text''" using h by simp
      show "strip (text_area u) = []" using h by simp
    qed
  qed
  show ?thesis
    using initial_case form_case text_case by blast
qed

text \<open>
  C8 as stated fails: a rejected blank description is still stored in the session.
\<close>

theorem empty_submission_counterexample:
  "strip ''  '' = [] \<and>
   stage_of initial_input_session = InitialInput \<and>
   dml_initial_description initial_input_session = [] \<and>
   dml_initial_description
     (session (script_run (demo_collaborators insert_statement) None initial_input_session
        (user ClickGetGuidance ''  ''))) = ''  ''"
  by code_simp

theorem empty_submission_amended_witness:
  "session (script_run (demo_collaborators insert_statement) None initial_input_session
     (user ClickGetGuidance ''  '')) =
     initial_input_session\<lparr>dml_initial_description := ''  ''\<rparr> \<and>
   outcome (script_run (demo_collaborators insert_statement) None initial_input_session
     (user ClickGetGuidance ''  '')) = Finished \<and>
   session (script_run (demo_collaborators insert_statement) None (details_session ''form'')
     (user SubmitForm [])) =
     (details_session ''form'')\<lparr>dml_form_inputs := [(''Name'', [])]\<rparr> \<and>
   session (script_run (demo_collaborators insert_statement) None (details_session ''text'')
     (user ClickGenerateFromText ''  '')) =
     (details_session ''text'')\<lparr>dml_text_details := ''  ''\<rparr> \<and>
   notices (script_run (demo_collaborators insert_statement) None initial_input_session
     (user ClickGetGuidance nbsp_blank)) = [Warning ''Please provide an initial description.''] \<and>
   notices (script_run (demo_collaborators insert_statement) None (details_session ''text'')
     (user ClickGenerateFromText nbsp_blank)) =
     [Warning ''Please provide the structured details in text.'']"
proof -
  have a: "current_action initial_input_session = Some ''add_data_initial_input''"
    "current_action (details_session m) = Some ''awaiting_structured_dml_details_add''" for m
    by (simp_all add: initial_input_session_def details_session_def)
  have st: "stage_of initial_input_session = InitialInput"
    "stage_of (details_session m) = AwaitingDetails" for m
    by (simp_all add: stage_of_def a)
  have b: "strip ''  '' = []" "strip nbsp_blank = []" by code_simp+
  have g: "dml_guidance_message (details_session m) = Some demo_guidance"
    "dml_input_method (details_session m) = Some m"
    "dml_form_inputs (details_session m) = []" for m
    by (simp_all add: details_session_def method_session_def initial_session_def)
  have t: "dict_truthy demo_guidance" "suggested_fields demo_guidance = Present [''Name'']"
    by (simp_all add: dict_truthy_def demo_guidance_def)
  show ?thesis
    using empty_submission_amended [OF a(1), where u = "user ClickGetGuidance ''  ''"
        and co = "demo_collaborators insert_statement" and db = None]
      empty_submission_amended [OF a(2), where m1 = "''form''" and g = demo_guidance
        and fs = "[''Name'']" and u = "user SubmitForm []"
        and co = "demo_collaborators insert_statement" and db = None]
      empty_submission_amended [OF a(2), where m1 = "''text''" and g = demo_guidance
        and u = "user ClickGenerateFromText ''  ''"
        and co = "demo_collaborators insert_statement" and db = None]
      empty_submission_amended [OF a(1), where u = "user ClickGetGuidance nbsp_blank"
        and co = "demo_collaborators insert_statement" and db = None]
      empty_submission_amended [OF a(2), where m1 = "''text''" and g = demo_guidance
        and u = "user ClickGenerateFromText nbsp_blank"
        and co = "demo_collaborators insert_statement" and db = None]
    by (simp add: st b g t user_def verb_simps widget_key_def)
qed

section \<open>Where a pending confirmation comes from\<close>

lemma pending_initial_input_stage:
  "pending_dml_confirmation (fst (initial_input_stage u ca s)) = pending_dml_confirmation s"
  by (simp add: initial_input_stage_def Let_def)

lemma pending_input_method_stage:
  "pending_dml_confirmation (fst (input_method_stage u ca s)) = pending_dml_confirmation s"
  by (simp add: input_method_stage_def Let_def split: option.split)

lemma pending_dml_stages:
  "pending_dml_confirmation (fst (dml_stages u s)) = pending_dml_confirmation s \<or>
   pending_dml_confirmation (fst (dml_stages u s)) = None"
  by (cases "pending_dml_confirmation s")
     (auto simp add: dml_stages_def pending_initial_input_stage pending_input_method_stage
        details_stage_proj confirmation_stage_def Let_def)

lemma pending_chat_input:
  "pending_dml_confirmation (fst (chat_input u s)) = pending_dml_confirmation s"
  by (simp add: chat_input_def split: event.split)

lemma pending_process_chat_input:
  "pending_dml_confirmation (fst (process_chat_input co db s)) = pending_dml_confirmation s"
  by (simp add: process_chat_input_def on_exception_def split: prod.split sum.split)

lemma pending_process_initial_dml_description:
  "pending_dml_confirmation (fst (process_initial_dml_description co db a s)) =
     pending_dml_confirmation s"
  by (simp add: process_initial_dml_description_def on_exception_def Let_def
      split: prod.split sum.split)

lemma pending_process_summarize_db:
  "pending_dml_confirmation (fst (process_summarize_db co db s)) = pending_dml_confirmation s"
  by (simp add: process_summarize_db_def on_exception_def Let_def split: prod.split sum.split)

lemma pending_process_structured_dml:
  assumes "pending_dml_confirmation (fst (process_structured_dml co db a s)) = Some p"
  shows "pending_dml_confirmation s = Some p \<or>
         (\<exists>action_type action_desc details schema.
            dml_generation_chain co action_type action_desc details schema = Inr (sql p))"
proof (cases "dml_input_method s \<noteq> Some ''form'' \<and> dml_input_method s \<noteq> Some ''text''")
  case True
  then show ?thesis
    using assms by (simp add: process_structured_dml_def Let_def)
next
  case False
  obtain schema db' where g: "get_schema db = (schema, db')"
    by (cases "get_schema db")
  let ?v = "if contains a ''add'' then ''add'' else ''delete''"
  let ?d = "if dml_input_method s = Some ''form'' then structured_details (dml_form_inputs s)
            else dml_text_details s"
  show ?thesis
  proof (cases "dml_generation_chain co (upper ?v) (action_description ?v) ?d schema")
    case (Inl e)
    then show ?thesis
      using assms False by (simp add: process_structured_dml_def Let_def g on_exception_def)
  next
    case (Inr generated)
    show ?thesis
    proof (cases "startswith generated ''Error generating DML:''")
      case True
      then show ?thesis
        using assms False Inr by (simp add: process_structured_dml_def Let_def g)
    next
      case no: False
      have "p = \<lparr>action = ?v, sql = generated\<rparr>"
        using assms False Inr no by (simp add: process_structured_dml_def Let_def g)
      then have "sql p = generated" by simp
      then show ?thesis
        using Inr by blast
    qed
  qed
qed

lemma pending_process_actions:
  assumes "pending_dml_confirmation (fst (process_actions co db s)) = Some p"
  shows "pending_dml_confirmation s = Some p \<or>
         (\<exists>action_type action_desc details schema.
            dml_generation_chain co action_type action_desc details schema = Inr (sql p))"
  using assms pending_process_structured_dml [of co db _ s p]
  by (simp add: process_actions_def pending_process_chat_input
      pending_process_initial_dml_description pending_process_summarize_db
      split: option.splits if_splits)

lemma pending_script_run:
  assumes "pending_dml_confirmation (session (script_run co db s u)) = Some p"
  shows "pending_dml_confirmation s = Some p \<or>
         (\<exists>action_type action_desc details schema.
            dml_generation_chain co action_type action_desc details schema = Inr (sql p))"
proof -
  let ?s1 = "fst (dml_stages u s)"
  let ?s2 = "fst (chat_input u ?s1)"
  let ?s3 = "fst (process_actions co db ?s2)"
  have q: "pending_dml_confirmation (quick_action a s) = pending_dml_confirmation s" for a
    by (simp add: quick_action_def)
  have s1: "pending_dml_confirmation ?s1 = Some p \<Longrightarrow> pending_dml_confirmation s = Some p"
    using pending_dml_stages [of u s] by auto
  have s2: "pending_dml_confirmation ?s2 = Some p \<Longrightarrow> pending_dml_confirmation s = Some p"
    using s1 by (simp add: pending_chat_input)
  have s3: "pending_dml_confirmation ?s3 = Some p \<Longrightarrow>
            pending_dml_confirmation s = Some p \<or>
            (\<exists>action_type action_desc details schema.
               dml_generation_chain co action_type action_desc details schema = Inr (sql p))"
    using pending_process_actions [of co db ?s2 p] s2 by blast
  have "session (script_run co db s u) \<in>
          {quick_action ''add_data_initial_input'' s, quick_action ''delete_data_initial_input'' s,
           s\<lparr>current_action := Some ''summarize_db''\<rparr>, ?s1, ?s2, ?s3}"
    by (simp add: script_run_def split: prod.split option.split)
  then show ?thesis
    using assms q s1 s2 s3 by auto
qed

lemma pending_runs:
  "pending_dml_confirmation (fst (runs db s trace)) = Some p \<Longrightarrow>
   pending_dml_confirmation s = Some p \<or> generated_in trace (sql p)"
proof (induction trace arbitrary: db s)
  case Nil
  then show ?case by simp
next
  case (Cons step trace)
  obtain co u where step: "step = (co, u)" by (cases step)
  let ?r = "script_run co db s u"
  have "fst (runs db s (step # trace)) = fst (runs (db_after ?r) (session ?r) trace)"
    by (simp add: step Let_def split: prod.split)
  then have "pending_dml_confirmation (fst (runs (db_after ?r) (session ?r) trace)) = Some p"
    using Cons.prems by simp
  then have "pending_dml_confirmation (session ?r) = Some p \<or> generated_in trace (sql p)"
    by (rule Cons.IH)
  then show ?case
  proof
    assume "pending_dml_confirmation (session ?r) = Some p"
    from pending_script_run [OF this]
    show ?thesis
      by (auto simp add: generated_in_def step)
  next
    assume "generated_in trace (sql p)"
    then show ?thesis
      by (auto simp add: generated_in_def)
  qed
qed

text \<open>
  C1, as amended. After every sequence of script runs from the initial session, a
  pending confirmation holds a text that the DML generation chain returned in one of
  the runs and that does not start with "Error generating DML:", with the action verb
  add or delete; the text is not checked to be an INSERT, UPDATE or DELETE statement.
  The Proceed and Cancel Operation buttons of the confirmation stage clear it.
\<close>

theorem pending_confirmation_amended:
  assumes "pending_dml_confirmation (fst (runs db0 initial_session trace)) = Some p"
  shows "generated_in trace (sql p) \<and>
         \<not> startswith (sql p) ''Error generating DML:'' \<and>
         (action p = ''add'' \<or> action p = ''delete'') \<and>
         (\<forall>s u co db.
            stage_of s = PendingConfirmation \<and>
            (event u = ClickProceed \<or> event u = ClickCancelConfirmation) \<longrightarrow>
            pending_dml_confirmation (session (script_run co db s u)) = None)"
proof -
  have "pending_ok (fst (runs db0 initial_session trace))"
    using inv_runs [OF inv_initial, of db0 trace] by (simp add: session_inv_def)
  then have ok: "\<not> startswith (sql p) ''Error generating DML:'' \<and>
                 (action p = ''add'' \<or> action p = ''delete'')"
    using assms by (simp add: pending_ok_def)
  have gen: "generated_in trace (sql p)"
    using pending_runs [OF assms] by (simp add: initial_session_def)
  have clear: "pending_dml_confirmation (session (script_run co db s u)) = None"
    if "stage_of s = PendingConfirmation \<and>
        (event u = ClickProceed \<or> event u = ClickCancelConfirmation)" for s u co db
  proof -
    from that have st: "stage_of s = PendingConfirmation" by simp
    obtain q where q: "pending_dml_confirmation s = Some q"
      using stage_of_confirmation(4) [OF st] by auto
    show ?thesis
      using that q by (auto simp add: script_run_confirmation [OF st] confirmation_stage_def)
  qed
  show ?thesis
    using ok gen clear by blast
qed

text \<open>
  C1 as stated fails: when the model answers the DML generation prompt with a SELECT
  statement, that text becomes the pending confirmation; and the Add Data quick action
  starts a new flow with the confirmation still pending.
\<close>

theorem pending_confirmation_counterexample:
  "pending_dml_confirmation (fst (runs None initial_session (add_flow ''SELECT 1''))) =
     Some \<lparr>action = ''add'', sql = ''SELECT 1''\<rparr> \<and>
   \<not> starts_with_keyword ''SELECT 1'' ''INSERT'' \<and>
   \<not> starts_with_keyword ''SELECT 1'' ''UPDATE'' \<and>
   \<not> starts_with_keyword ''SELECT 1'' ''DELETE'' \<and>
   stage_of (session (script_run (demo_collaborators ''SELECT 1'') None
     (confirmation_session ''SELECT 1'') (user ClickAddData []))) = InitialInput \<and>
   pending_dml_confirmation (session (script_run (demo_collaborators ''SELECT 1'') None
     (confirmation_session ''SELECT 1'') (user ClickAddData []))) =
     Some \<lparr>action = ''add'', sql = ''SELECT 1''\<rparr>"
  by code_simp

theorem pending_confirmation_amended_witness:
  "generated_in (add_flow insert_statement) insert_statement \<and>
   \<not> startswith insert_statement ''Error generating DML:''"
proof -
  have p: "pending_dml_confirmation (fst (runs None initial_session (add_flow insert_statement))) =
             Some \<lparr>action = ''add'', sql = insert_statement\<rparr>"
    by (simp add: add_flow_ends confirmation_session_def)
  show ?thesis
    using pending_confirmation_amended [OF p] by simp
qed

section \<open>The chat input during a DML flow\<close>

text \<open>
  C10. The chat input is not disabled in the initial-description stage of an Add flow,
  whose action name does not contain "dml": a chat submission there is processed and
  replaces the flow's current action. It is not disabled either when a confirmation is
  pending and the current action is none.
\<close>

theorem chat_input_enabled_in_dml_flow:
  "stage_of (fst (runs None initial_session (take 2 (add_flow insert_statement)))) = InitialInput \<and>
   \<not> chat_input_disabled (fst (runs None initial_session (take 2 (add_flow insert_statement)))) \<and>
   current_action (fst (runs None initial_session chat_in_initial_input)) =
     Some ''process_chat_input'' \<and>
   stage_of (fst (runs None initial_session chat_in_initial_input)) = NoStage \<and>
   current_action (fst (runs None initial_session summarize_at_confirmation)) = None \<and>
   pending_dml_confirmation (fst (runs None initial_session summarize_at_confirmation)) =
     Some \<lparr>action = ''add'', sql = insert_statement\<rparr> \<and>
   \<not> chat_input_disabled (fst (runs None initial_session summarize_at_confirmation))"
  by code_simp

end
